theory Spec2Isabelle
  imports Complex_Main "HOL-Library.Word"
begin

section \<open>Meshing functions that drive the LaGriT kernel\<close>

text \<open>
  The module \<^verbatim>\<open>tinerator/generate_triplane.py\<close> computes little itself: it validates
  its arguments, prepares arrays and files, and issues commands to a LaGriT session through
  PyLaGriT. Each function is therefore embedded as the list of effects it performs, in the
  order the source performs them, together with its outcome: \<open>Inr\<close> for a normal return,
  \<open>Inl\<close> for the exception that ended it. Effects performed before an exception stay
  performed, so the list is returned in both cases.
\<close>

subsection \<open>Exceptions\<close>

datatype py_error =
    ValueError
  | AssertionError
  | TypeError
  | IndexError
  | KeyError
  | ZeroDivisionError
  | LibraryError

subsection \<open>Effects\<close>

text \<open>
  An argument of a PyLaGriT call. \<open>Obj v\<close> is the object bound to the Python variable
  \<open>v\<close>, \<open>NameOf v\<close> is its attribute \<^verbatim>\<open>v.name\<close> (the name PyLaGriT gave the kernel
  object), \<open>Kw k a\<close> is the keyword argument \<^verbatim>\<open>k=a\<close>.
\<close>

datatype arg =
    S string
  | I int
  | R real
  | B bool
  | NoneA
  | L "arg list"
  | Kw string arg
  | Obj string
  | NameOf string

text \<open>
  \<open>Call r m as\<close> is \<^verbatim>\<open>r.m(as)\<close>; \<open>Bind v r m as\<close> is \<^verbatim>\<open>v = r.m(as)\<close>;
  \<open>Sendline ps\<close> is \<^verbatim>\<open>lg.sendline(s)\<close> where \<open>s\<close> is the concatenation of the
  pieces \<open>ps\<close>; \<open>CallLaGriT ls\<close> is \<^verbatim>\<open>callLaGriT(cmd)\<close> where \<open>cmd\<close> is the script
  whose lines are \<open>ls\<close>, each the concatenation of its pieces (\<open>R x\<close> stands for
  \<^verbatim>\<open>str(x)\<close>); \<open>WriteFile f\<close> is a file written by Python itself and \<open>RemoveFile f\<close>
  is \<^verbatim>\<open>os.remove(f)\<close>.
\<close>

datatype event =
    Call string string "arg list"
  | Bind string string string "arg list"
  | Sendline "arg list"
  | CallLaGriT "arg list list"
  | WriteFile string
  | RemoveFile string

type_synonym 'a outcome = "event list \<times> (py_error + 'a)"

subsection \<open>Formatting \<^verbatim>\<open>%d\<close>\<close>

fun str_nat :: "nat \<Rightarrow> string" where
  "str_nat n =
     (if n < 10 then [''0123456789'' ! n]
      else str_nat (n div 10) @ [''0123456789'' ! (n mod 10)])"

declare str_nat.simps [simp del]

definition layer_file :: "nat \<Rightarrow> string" where
  \<comment> \<open>\<^verbatim>\<open>'layer%d.inp' % n\<close>\<close>
  "layer_file n = ''layer'' @ str_nat n @ ''.inp''"

subsection \<open>stackLayers\<close>

text \<open>
  The loop \<^verbatim>\<open>for (i,offset) in enumerate(layers)\<close>: every iteration subtracts
  \<open>offset\<close> from the attribute \<open>zic\<close> of the one mesh object \<open>motmp_top\<close> and dumps
  that object to \<^verbatim>\<open>layer(i+1).inp\<close>.
\<close>

definition dump_layer :: "nat \<times> real \<Rightarrow> event list" where
  "dump_layer p =
     [Call ''motmp_top'' ''math'' [S ''sub'', S ''zic'', Kw ''value'' (R (snd p))],
      Call ''motmp_top'' ''dump'' [S (layer_file (fst p + 1))]]"

definition matids_arg :: "int list option \<Rightarrow> arg" where
  "matids_arg ms = (case ms of None \<Rightarrow> NoneA | Some xs \<Rightarrow> L (map I xs))"

definition stack_and_fill ::
  "string \<Rightarrow> real list \<Rightarrow> int list option \<Rightarrow> arg \<Rightarrow> arg list option \<Rightarrow> event list" where
  \<comment> \<open>the body of stackLayers after the normalisation of \<open>layers\<close> and \<open>matids\<close>\<close>
  "stack_and_fill outfile layers matids xy_subset nlayers =
     (let stack_files = map (\<lambda>i. layer_file (length layers - i)) [0..<length layers];
          nlayers' = (case nlayers of
                        None \<Rightarrow> replicate (length stack_files - 1) (S '''')
                      | Some ns \<Rightarrow> ns)
      in concat (map dump_layer (enumerate 0 layers)) @
         [Call ''motmp_top'' ''delete'' [],
          Bind ''stack'' ''lg'' ''create'' [],
          Call ''stack'' ''stack_layers''
            [L (map S stack_files), Kw ''flip_opt'' (B True), Kw ''nlayers'' (L nlayers'),
             Kw ''matids'' (matids_arg matids), Kw ''xy_subset'' xy_subset],
          Call ''stack'' ''dump'' [S ''tmp_layers.inp''],
          Bind ''cmo_prism'' ''stack'' ''stack_fill'' [Kw ''name'' (S ''CMO_PRISM'')],
          Call ''cmo_prism'' ''resetpts_itp'' [],
          Call ''cmo_prism'' ''addatt'' [S ''cell_vol'', Kw ''keyword'' (S ''volume'')],
          Call ''cmo_prism'' ''dump'' [S outfile]])"

definition stackLayers ::
  "string \<Rightarrow> string \<Rightarrow> real list \<Rightarrow> int list option \<Rightarrow> arg \<Rightarrow> arg list option \<Rightarrow> unit outcome" where
  "stackLayers infile outfile layers matids xy_subset nlayers =
     (case layers of
        [] \<Rightarrow> ([], Inl IndexError)
      | l0 # _ \<Rightarrow>
          if l0 \<noteq> 0 then
            (case matids of
               None \<Rightarrow> ([], Inl TypeError)
             | Some ms \<Rightarrow>
                 if length (0 # layers) = length (0 # ms) then
                   (Bind ''motmp_top'' ''lg'' ''read'' [S infile] #
                      stack_and_fill outfile (0 # layers) (Some (0 # ms)) xy_subset nlayers,
                    Inr ())
                 else ([], Inl AssertionError))
          else
            (Bind ''motmp_top'' ''lg'' ''read'' [S infile] #
               stack_and_fill outfile layers matids xy_subset nlayers,
             Inr ()))"

subsection \<open>The kernel commands stackLayers relies on\<close>

text \<open>
  A mesh is held as the list of its layer surfaces, the bottom one first; a surface mesh has
  one. A surface is the list of its nodes \<open>(xic, yic, zic)\<close>. Connectivity and the material
  ids of the elements are element data and are left out: no command below moves a node
  because of them.
\<close>

type_synonym node = "real \<times> real \<times> real"
type_synonym mesh = "node list list"

record kernel =
  disk :: "string \<rightharpoonup> mesh"
  cmo :: "string \<rightharpoonup> mesh"

definition zic :: "node \<Rightarrow> real" where
  "zic n = snd (snd n)"

definition math_sub_zic :: "real \<Rightarrow> mesh \<Rightarrow> mesh" where
  \<comment> \<open>Modelled from the spec: the kernel command \<^verbatim>\<open>math/sub\<close> on the attribute \<open>zic\<close>, sent
      by PyLaGriT's \<^verbatim>\<open>MO.math\<close> (PyLaGriT is not part of the module): the vertical coordinate of every
      node of the mesh object is shifted by \<open>- value\<close>, in place.\<close>
  "math_sub_zic v m = map (map (\<lambda>n. (fst n, fst (snd n), zic n - v))) m"

definition file_args :: "arg list \<Rightarrow> string list option" where
  "file_args as = those (map (\<lambda>a. case a of S f \<Rightarrow> Some f | _ \<Rightarrow> None) as)"

fun keyword :: "string \<Rightarrow> arg list \<Rightarrow> arg option" where
  \<comment> \<open>the value of the keyword argument \<open>k\<close> of a call\<close>
  "keyword k [] = None"
| "keyword k (Kw k' a # as) = (if k' = k then Some a else keyword k as)"
| "keyword k (_ # as) = keyword k as"

definition sublayer_count :: "arg \<Rightarrow> nat" where
  \<comment> \<open>an entry of \<open>nlayers\<close>: a number of sub-layers, or \<^verbatim>\<open>''\<close> for no subdivision\<close>
  "sublayer_count a = (case a of I n \<Rightarrow> nat n | _ \<Rightarrow> 0)"

definition between :: "nat \<Rightarrow> nat \<Rightarrow> node list \<Rightarrow> node list \<Rightarrow> node list" where
  \<comment> \<open>the surface \<open>i\<close> n-ths of the way up from the surface \<open>lo\<close> to the surface \<open>hi\<close>\<close>
  "between i n lo hi =
     map (\<lambda>p. (fst (fst p), fst (snd (fst p)),
                zic (fst p) + real i / real n * (zic (snd p) - zic (fst p))))
       (zip lo hi)"

definition sublayers :: "nat \<Rightarrow> node list \<Rightarrow> node list \<Rightarrow> node list list" where
  \<comment> \<open>Modelled from the spec: a gap divided into \<open>n\<close> sub-layers holds \<open>n - 1\<close> surfaces
      of its own, evenly spaced between the two it separates; none for \<open>n\<close> = 0 or 1.\<close>
  "sublayers n lo hi = map (\<lambda>i. between i n lo hi) [1..<n]"

fun subdivide :: "nat list \<Rightarrow> mesh \<Rightarrow> mesh" where
  \<comment> \<open>the gaps are taken bottom up, each with its own count; a gap with no count is left whole\<close>
  "subdivide (n # ns) (lo # hi # rest) = lo # sublayers n lo hi @ subdivide ns (hi # rest)"
| "subdivide ns m = m"

definition real_arg :: "arg \<Rightarrow> real option" where
  "real_arg a = (case a of R x \<Rightarrow> Some x | I i \<Rightarrow> Some (real_of_int i) | _ \<Rightarrow> None)"

definition footprint :: "arg \<Rightarrow> node list \<Rightarrow> node list option" where
  \<comment> \<open>Modelled from the spec: the part of a surface within the planar footprint
      \<open>xy_subset\<close>, the rectangle \<^verbatim>\<open>[xmin, ymin, xmax, ymax]\<close>; all of it when no footprint
      is given (\<^verbatim>\<open>None\<close>).\<close>
  "footprint xy s =
     (case xy of
        NoneA \<Rightarrow> Some s
      | L bounds \<Rightarrow>
          (case those (map real_arg bounds) of
             Some [xmin, ymin, xmax, ymax] \<Rightarrow>
               Some (filter (\<lambda>n. xmin \<le> fst n \<and> fst n \<le> xmax
                                \<and> ymin \<le> fst (snd n) \<and> fst (snd n) \<le> ymax) s)
           | _ \<Rightarrow> None)
      | _ \<Rightarrow> None)"

definition ids_match :: "arg \<Rightarrow> nat \<Rightarrow> bool" where
  \<comment> \<open>one material id for each of the \<open>n\<close> layer surfaces, or no material ids at all\<close>
  "ids_match ids n = (case ids of NoneA \<Rightarrow> True | L is \<Rightarrow> length is = n | _ \<Rightarrow> False)"

definition stack_surfaces :: "arg list \<Rightarrow> arg \<Rightarrow> arg \<Rightarrow> mesh list \<Rightarrow> mesh option" where
  \<comment> \<open>Modelled from the spec: the surfaces of the files, bottom first, are restricted to the
      footprint and stacked, every gap between two of them divided into its number of
      sub-layers. The kernel is given one material id for each surface file.\<close>
  "stack_surfaces counts ids xy ms =
     (if ids_match ids (length ms) then
        (case those (map (footprint xy) (concat ms)) of
           None \<Rightarrow> None
         | Some ss \<Rightarrow> Some (subdivide (map sublayer_count counts) ss))
      else None)"

definition kernel_bind :: "string \<Rightarrow> string \<Rightarrow> string \<Rightarrow> arg list \<Rightarrow> kernel \<Rightarrow> kernel option" where
  \<comment> \<open>Modelled from the spec: \<^verbatim>\<open>lg.read\<close> loads a mesh file into a new mesh object,
      \<^verbatim>\<open>lg.create\<close> makes an empty one, \<^verbatim>\<open>stack_fill\<close> fills the stacked layers of its
      receiver into a new volumetric mesh object (same nodes).\<close>
  "kernel_bind v r m as k =
     (if m = ''read'' then
        (case as of
           [S f] \<Rightarrow> (case disk k f of
                       None \<Rightarrow> None
                     | Some msh \<Rightarrow> Some (k\<lparr>cmo := (cmo k)(v \<mapsto> msh)\<rparr>))
         | _ \<Rightarrow> None)
      else if m = ''create'' then Some (k\<lparr>cmo := (cmo k)(v \<mapsto> [])\<rparr>)
      else if m = ''stack_fill'' then
        (case cmo k r of
           None \<Rightarrow> None
         | Some msh \<Rightarrow> Some (k\<lparr>cmo := (cmo k)(v \<mapsto> msh)\<rparr>))
      else None)"

definition kernel_call :: "string \<Rightarrow> string \<Rightarrow> arg list \<Rightarrow> kernel \<Rightarrow> kernel option" where
  \<comment> \<open>Modelled from the spec: \<^verbatim>\<open>math\<close> as \<open>math_sub_zic\<close>; \<^verbatim>\<open>dump\<close> writes the mesh
      object as it is now to a file; \<^verbatim>\<open>delete\<close> releases it; \<^verbatim>\<open>stack_layers\<close> reads
      the listed surface files into its receiver as \<open>stack_surfaces\<close> makes one mesh of
      them from the keywords \<open>nlayers\<close>, \<open>matids\<close> and \<open>xy_subset\<close> (\<open>flip_opt\<close> turns
      the elements over and moves no node); \<^verbatim>\<open>resetpts_itp\<close> and \<^verbatim>\<open>addatt\<close> move no node.\<close>
  "kernel_call r m as k =
     (case cmo k r of
        None \<Rightarrow> None
      | Some msh \<Rightarrow>
          if m = ''math'' then
            (case as of
               [S opr, S att, Kw kw (R v)] \<Rightarrow>
                 if opr = ''sub'' \<and> att = ''zic'' \<and> kw = ''value''
                 then Some (k\<lparr>cmo := (cmo k)(r \<mapsto> math_sub_zic v msh)\<rparr>)
                 else None
             | _ \<Rightarrow> None)
          else if m = ''dump'' then
            (case as of
               [S f] \<Rightarrow> Some (k\<lparr>disk := (disk k)(f \<mapsto> msh)\<rparr>)
             | _ \<Rightarrow> None)
          else if m = ''delete'' then Some (k\<lparr>cmo := (cmo k)(r := None)\<rparr>)
          else if m = ''stack_layers'' then
            (case as of
               L fs # kws \<Rightarrow>
                 (case (file_args fs, keyword ''nlayers'' kws, keyword ''matids'' kws,
                        keyword ''xy_subset'' kws) of
                    (Some names, Some (L counts), Some ids, Some xy) \<Rightarrow>
                      (case those (map (disk k) names) of
                         None \<Rightarrow> None
                       | Some ms \<Rightarrow>
                           (case stack_surfaces counts ids xy ms of
                              None \<Rightarrow> None
                            | Some stacked \<Rightarrow> Some (k\<lparr>cmo := (cmo k)(r \<mapsto> stacked)\<rparr>)))
                  | _ \<Rightarrow> None)
             | _ \<Rightarrow> None)
          else if m = ''resetpts_itp'' \<or> m = ''addatt'' then Some k
          else None)"

fun kernel_step :: "event \<Rightarrow> kernel \<Rightarrow> kernel option" where
  "kernel_step (Bind v r m as) k = kernel_bind v r m as k"
| "kernel_step (Call r m as) k = kernel_call r m as k"
| "kernel_step _ k = None"

fun kernel_run :: "event list \<Rightarrow> kernel \<Rightarrow> kernel option" where
  "kernel_run [] k = Some k"
| "kernel_run (e # es) k =
     (case kernel_step e k of None \<Rightarrow> None | Some k' \<Rightarrow> kernel_run es k')"

definition prism_after :: "event list \<Rightarrow> kernel \<Rightarrow> mesh option" where
  \<comment> \<open>the mesh object \<open>cmo_prism\<close> that stackLayers returns, once the kernel has run the commands\<close>
  "prism_after es k = (case kernel_run es k of None \<Rightarrow> None | Some k' \<Rightarrow> cmo k' ''cmo_prism'')"

definition layer_after :: "event list \<Rightarrow> kernel \<Rightarrow> string \<Rightarrow> mesh option" where
  \<comment> \<open>the content of a file once the kernel has run the commands\<close>
  "layer_after es k f = (case kernel_run es k of None \<Rightarrow> None | Some k' \<Rightarrow> disk k' f)"

definition vertical_extent :: "mesh \<Rightarrow> nat \<Rightarrow> real" where
  \<comment> \<open>height of the column of nodes number \<open>j\<close>: the highest minus the lowest of the
      layer surfaces there\<close>
  "vertical_extent m j =
     Max (set (map (\<lambda>s. zic (s ! j)) m)) - Min (set (map (\<lambda>s. zic (s ! j)) m))"

definition dumped_layers :: "event list \<Rightarrow> string list" where
  \<comment> \<open>the files the surface object was dumped to, in order\<close>
  "dumped_layers es =
     concat (map (\<lambda>e. case e of
                        Call r m as \<Rightarrow>
                          (if r = ''motmp_top'' \<and> m = ''dump''
                           then (case as of [S f] \<Rightarrow> [f] | _ \<Rightarrow> []) else [])
                      | _ \<Rightarrow> []) es)"

subsection \<open>generateLineConnectivity\<close>

type_synonym point = "real \<times> real"

definition generateLineConnectivity :: "point list \<Rightarrow> bool \<Rightarrow> py_error + (nat \<times> nat) list" where
  \<comment> \<open>\<^verbatim>\<open>np.empty((size+delta,2))\<close> raises ValueError for a negative dimension (no node, open
      polyline); \<^verbatim>\<open>connectivity[-1] = ...\<close> raises IndexError on an array of no rows (no node,
      closed polyline).\<close>
  "generateLineConnectivity nodes connect_ends =
     (let size = length nodes;
          edges = map (\<lambda>i. (i + 1, i + 2)) [0..<size - 1]
      in if connect_ends then
           (if size = 0 then Inl IndexError else Inr (edges @ [(size, 1)]))
         else
           (if size = 0 then Inl ValueError else Inr edges))"

subsection \<open>The writer \<^verbatim>\<open>_writeLineAVS\<close>\<close>

text \<open>
  The text written to the file is not modelled, only that the file is written and which
  assertion stops the writer. The first assertion comes before the file is opened, the two
  on attribute arrays after the nodes and lines have been written.
\<close>

definition att_count :: "(string \<times> int list) list option \<Rightarrow> nat" where
  "att_count atts = (case atts of None \<Rightarrow> 0 | Some d \<Rightarrow> length d)"

definition atts_long_enough :: "(string \<times> int list) list option \<Rightarrow> nat \<Rightarrow> bool" where
  "atts_long_enough atts n =
     (case atts of None \<Rightarrow> True | Some d \<Rightarrow> list_all (\<lambda>kv. n \<le> length (snd kv)) d)"

definition writeLineAVS ::
  "point list \<Rightarrow> string \<Rightarrow> (nat \<times> nat) list option \<Rightarrow> int list option \<Rightarrow>
   (string \<times> int list) list option \<Rightarrow> (string \<times> int list) list option \<Rightarrow> unit outcome" where
  "writeLineAVS boundary outfile connections material_id node_atts cell_atts =
     (let nnodes = length boundary;
          nlines = (case connections of None \<Rightarrow> 0 | Some c \<Rightarrow> length c);
          natts = att_count node_atts;
          catts = att_count cell_atts
      in if (case material_id of None \<Rightarrow> False | Some m \<Rightarrow> \<not> nlines \<le> length m)
         then ([], Inl AssertionError)
         else if natts \<noteq> 0 \<and> \<not> atts_long_enough node_atts nnodes
         then ([WriteFile outfile], Inl AssertionError)
         else if catts \<noteq> 0 \<and> \<not> atts_long_enough cell_atts nlines
         then ([WriteFile outfile], Inl AssertionError)
         else ([WriteFile outfile], Inr ()))"

subsection \<open>buildUniformTriplane\<close>

definition length_scales :: "real \<Rightarrow> real list" where
  \<comment> \<open>\<^verbatim>\<open>[min_edge*i for i in [1,2,4,8,16,32,64]][::-1]\<close>\<close>
  "length_scales min_edge = rev (map (\<lambda>i. min_edge * i) [1, 2, 4, 8, 16, 32, 64])"

definition refine_pass :: "real \<Rightarrow> event list" where
  \<comment> \<open>one iteration of \<^verbatim>\<open>for ln in length_scales\<close>, with \<open>scale\<close> for \<open>ln\<close>\<close>
  "refine_pass scale =
     Call ''motri'' ''refine''
       [Kw ''refine_option'' (S ''rivara''), Kw ''refine_type'' (S ''edge''),
        Kw ''values'' (L [R scale]), Kw ''inclusive_flag'' (S ''inclusive'')] #
     concat (replicate 3 [Call ''motri'' ''recon'' [I 0], Call ''motri'' ''smooth'' []]) @
     [Call ''motri'' ''rmpoint_compress'' [Kw ''resetpts_itp'' (B False)]]"

definition triangulate_boundary :: "bool \<Rightarrow> event list" where
  \<comment> \<open>from \<^verbatim>\<open>lg.read("poly_1.inp")\<close> to the \<^verbatim>\<open>motri.select()\<close> before the scale loop\<close>
  "triangulate_boundary counterclockwise =
     [Bind ''mo_tmp'' ''lg'' ''read'' [S ''poly_1.inp''],
      Bind ''motri'' ''lg'' ''create'' [Kw ''elem_type'' (S ''triplane'')],
      Call ''motri'' ''setatt'' [S ''ipolydat'', S ''no''],
      Sendline [S ''copypts / '', NameOf ''motri'', S '' / '', NameOf ''mo_tmp''],
      Call ''motri'' ''setatt'' [S ''imt'', I 1],
      Call ''mo_tmp'' ''delete'' [],
      Call ''motri'' ''select'' [],
      Call ''motri'' ''triangulate''
        [Kw ''order'' (S (if counterclockwise then ''counterclockwise'' else ''clockwise''))],
      Call ''motri'' ''setatt'' [S ''itetclr'', I 1],
      Call ''motri'' ''setatt'' [S ''motri'', I 1],
      Call ''motri'' ''resetpts_itp'' [],
      Sendline [S ''cmo/copy/mo/'', NameOf ''motri''],
      Call ''motri'' ''select'' []]"

definition final_smoothing :: "string option \<Rightarrow> event list" where
  \<comment> \<open>everything after the scale loop; \<^verbatim>\<open>if outfile:\<close> is false for None and for ''\<close>
  "final_smoothing outfile =
     concat (replicate 6
       [Call ''motri'' ''smooth'' [], Call ''motri'' ''recon'' [I 0],
        Call ''motri'' ''rmpoint_compress'' [Kw ''resetpts_itp'' (B True)]]) @
     [Call ''motri'' ''rmpoint_compress'' [Kw ''resetpts_itp'' (B False)],
      Call ''motri'' ''recon'' [I 1], Call ''motri'' ''smooth'' [],
      Call ''motri'' ''recon'' [I 0], Call ''motri'' ''recon'' [I 1],
      Call ''motri'' ''setatt'' [S ''ipolydat'', S ''yes'']] @
     (case outfile of
        None \<Rightarrow> []
      | Some f \<Rightarrow> if f = [] then [] else [Call ''motri'' ''dump'' [S f]])"

definition buildUniformTriplane ::
  "point list \<Rightarrow> string option \<Rightarrow> bool \<Rightarrow> (nat \<times> nat) list option \<Rightarrow> real \<Rightarrow> unit outcome" where
  "buildUniformTriplane boundary outfile counterclockwise connectivity min_edge =
     (case (case connectivity of
              None \<Rightarrow> generateLineConnectivity boundary False
            | Some c \<Rightarrow> Inr c) of
        Inl e \<Rightarrow> ([], Inl e)
      | Inr conn \<Rightarrow>
          (case writeLineAVS boundary ''poly_1.inp'' (Some conn) None None None of
             (w, Inl e) \<Rightarrow> (w, Inl e)
           | (w, Inr _) \<Rightarrow>
               (w @ triangulate_boundary counterclockwise @
                  concat (map refine_pass (length_scales min_edge)) @
                  final_smoothing outfile,
                Inr ())))"

definition is_refine :: "event \<Rightarrow> bool" where
  "is_refine e = (case e of Call r m as \<Rightarrow> m = ''refine'' | _ \<Rightarrow> False)"

subsection \<open>buildRefinedTriplane\<close>

definition refined_script :: "string \<Rightarrow> real \<Rightarrow> real \<Rightarrow> real \<Rightarrow> real \<Rightarrow> arg list list" where
  \<comment> \<open>the string \<open>cmd\<close>, line by line; \<open>counterclockwise\<close> is the constant False in the source\<close>
  "refined_script outfile h delta slope refine_dist =
     (let h_extrude = 0.5 * h;
          h_radius = sqrt ((0.5 * h_extrude)\<^sup>2 + (0.5 * h_extrude)\<^sup>2);
          h_trans = - 0.5 * h_extrude + h_radius * cos (arcsin delta)
      in
      [[S ''define / ID / 1''],
       [S ''define / OUTFILE_GMV / mesh_1.gmv''],
       [S ''define / OUTFILE_AVS / '', S outfile],
       [S ''define / OUTFILE_LG / mesh_1.lg''],
       [S ''define / POLY_FILE / poly_1.inp''],
       [S ''define / LINE_FILE / intersections_1.inp ''],
       [S ''define / QUAD_FILE / tmp_quad_1.inp''],
       [S ''define / EXCAVATE_FILE / tmp_excavate_1.inp''],
       [S ''define / PRE_FINAL_FILE / tmp_pre_final_1.inp''],
       [S ''define / PRE_FINAL_MASSAGE / tmp_pre_final_massage_1.gmv''],
       [S ''define / H_SCALE / '', R h],
       [S ''define / H_EPS / '', R (h * (1 / 10 ^ 7))],
       [S ''define / H_SCALE2 / '', R (1.5 * h)],
       [S ''define / H_EXTRUDE / '', R h_extrude],
       [S ''define / H_TRANS / '', R h_trans],
       [S ''define / H_PRIME / '', R (0.8 * h)],
       [S ''define / H_PRIME2 / '', R (0.3 * h)],
       [S ''define / H_SCALE3 / '', R (3 * h)],
       [S ''define / H_SCALE8 / '', R (8 * h)],
       [S ''define / H_SCALE16 / '', R (16 * h)],
       [S ''define / H_SCALE32 / '', R (32 * h)],
       [S ''define / H_SCALE64 / '', R (64 * h)],
       [S ''define / PURTURB8 / '', R (8 * 0.05 * h)],
       [S ''define / PURTURB16 / '', R (16 * 0.05 * h)],
       [S ''define / PURTURB32 / '', R (32 * 0.05 * h)],
       [S ''define / PURTURB64 / '', R (64 * 0.05 * h)],
       [S ''define / PARAM_A / '', R slope],
       [S ''define / PARAM_B / '', R (h * (1 - slope * refine_dist))],
       [S ''define / PARAM_A2 / '', R (0.5 * slope)],
       [S ''define / PARAM_B2 / '', R (h * (1 - 0.5 * slope * refine_dist))],
       [S ''define / THETA  / 0.000000000000 ''],
       [S ''define / X1 /  -0.000000000000 ''],
       [S ''define / Y1 / -0.000000000000 ''],
       [S ''define / Z1 / -0.000000000000 ''],
       [S ''define / X2 / 0.000000000000 ''],
       [S ''define / Y2 / 0.000000000000 ''],
       [S ''define / Z2 / 0.000000000000 ''],
       [S ''define / FAMILY / 2 ''],
       [S ''define / OUTPUT_INTER_ID_SSINT / id_tri_node_1.list''],
       [S ''read / POLY_FILE / mo_poly_work''],
       [S ''read / LINE_FILE / mo_line_work ''],
       [S ''cmo / create / mo_pts / / / triplane ''],
       [S ''copypts / mo_pts / mo_poly_work ''],
       [S ''cmo / select / mo_pts ''],
       [S ''triangulate / clockwise # change to clockwise based on bndry''],
       [S ''cmo / setatt / mo_pts / imt / 1 0 0 / ID ''],
       [S ''cmo / setatt / mo_pts / itetclr / 1 0 0 / ID ''],
       [S ''resetpts / itp ''],
       [S ''cmo / delete / mo_poly_work ''],
       [S ''cmo / select / mo_pts ''],
       [S ''massage / H_SCALE64 / H_EPS  / H_EPS''],
       [S ''recon 0; smooth;recon 0;smooth;recon 0;smooth;recon 0''],
       [S ''resetpts / itp''],
       [S ''pset / p_move / attribute / itp / 1 0 0 / 0 / eq''],
       [S ''perturb / pset get p_move / PERTURB64 PERTURB64 0.0''],
       [S ''recon 0; smooth;recon 0;smooth;recon 0;smooth;recon 0''],
       [S ''smooth;recon 0;smooth;recon 0;smooth;recon 0''],
       [S ''massage / H_SCALE32 / H_EPS / H_EPS''],
       [S ''resetpts / itp''],
       [S ''pset / p_move / attribute / itp / 1 0 0 / 0 / eq''],
       [S ''perturb / pset get p_move / PERTURB32 PERTURB32 0.0''],
       [S ''recon 0; smooth;recon 0;smooth;recon 0;smooth;recon 0''],
       [S ''smooth;recon 0;smooth;recon 0;smooth;recon 0''],
       [S ''massage / H_SCALE16 / H_EPS  / H_EPS''],
       [S ''resetpts / itp''],
       [S ''pset / p_move / attribute / itp / 1 0 0 / 0 / eq''],
       [S ''perturb / pset get p_move / PERTURB16 PERTURB16 0.0''],
       [S ''recon 0; smooth;recon 0;smooth;recon 0;smooth;recon 0''],
       [S ''smooth;recon 0;smooth;recon 0;smooth;recon 0''],
       [S ''massage / H_SCALE8 / H_EPS / H_EPS''],
       [S ''resetpts / itp''],
       [S ''pset / p_move / attribute / itp / 1 0 0 / 0 / eq''],
       [S ''perturb / pset get p_move / PERTURB8 PERTURB8 0.0''],
       [S ''recon 0; smooth;recon 0;smooth;recon 0;smooth;recon 0''],
       [S ''smooth;recon 0;smooth;recon 0;smooth;recon 0''],
       [S ''cmo/addatt/ mo_pts /x_four/vdouble/scalar/nnodes ''],
       [S ''cmo/addatt/ mo_pts /fac_n/vdouble/scalar/nnodes ''],
       [S ''massage2/user_function2.lgi/H_PRIME/fac_n/1.e-5/1.e-5/1 0 0/strictmergelength ''],
       [S ''assign///maxiter_sm/1 ''],
       [S ''smooth;recon 0;smooth;recon 0;smooth;recon 0''],
       [S ''assign///maxiter_sm/10''],
       [S ''massage2/user_function.lgi/H_PRIME/fac_n/1.e-5/1.e-5/1 0 0/strictmergelength ''],
       [S ''cmo / DELATT / mo_pts / rf_field_name ''],
       [S ''dump / '', S outfile, S '' / mo_pts''],
       [S ''finish'']])"

definition buildRefinedTriplane ::
  "point list \<Rightarrow> point list \<Rightarrow> string \<Rightarrow> real \<Rightarrow> (nat \<times> nat) list option \<Rightarrow>
   real \<Rightarrow> real \<Rightarrow> real \<Rightarrow> unit outcome" where
  "buildRefinedTriplane boundary feature outfile h connectivity delta slope refine_dist =
     (case (case connectivity of
              None \<Rightarrow> generateLineConnectivity boundary False
            | Some c \<Rightarrow> Inr c) of
        Inl e \<Rightarrow> ([], Inl e)
      | Inr conn \<Rightarrow>
          (case writeLineAVS boundary ''poly_1.inp'' (Some conn) None None None of
             (w, Inl e) \<Rightarrow> (w, Inl e)
           | (w, Inr _) \<Rightarrow>
               (case writeLineAVS feature ''intersections_1.inp'' None None None None of
                  (w', Inl e) \<Rightarrow> (w @ w', Inl e)
                | (w', Inr _) \<Rightarrow>
                    (w @ w' @ [CallLaGriT (refined_script outfile h delta slope refine_dist)],
                     Inr ()))))"

text \<open>
  How the kernel reads a line of the script: fields are separated by \<^verbatim>\<open>/\<close>, the words of
  a field by blanks. \<^verbatim>\<open>define / NAME / value\<close> gives the variable NAME a value;
  \<^verbatim>\<open>perturb / pset get p / x y z\<close> names the three perturbation factors.
\<close>

fun split_on :: "char \<Rightarrow> string \<Rightarrow> string list" where
  "split_on c [] = [[]]"
| "split_on c (x # xs) =
     (if x = c then [] # split_on c xs
      else (case split_on c xs of
              [] \<Rightarrow> [[x]]
            | w # ws \<Rightarrow> (x # w) # ws))"

definition strip :: "string \<Rightarrow> string" where
  "strip s = rev (dropWhile (\<lambda>c. c = CHR '' '') (rev (dropWhile (\<lambda>c. c = CHR '' '') s)))"

definition lg_fields :: "string \<Rightarrow> string list" where
  "lg_fields s = map strip (split_on CHR ''/'' s)"

definition lg_words :: "string \<Rightarrow> string list" where
  "lg_words s = filter (\<lambda>w. w \<noteq> []) (split_on CHR '' '' s)"

definition define_of :: "arg list \<Rightarrow> (string \<times> arg) option" where
  "define_of line =
     (case line of
        [S s] \<Rightarrow>
          (case lg_fields s of
             [d, n, v] \<Rightarrow> if d = ''define'' then Some (n, S v) else None
           | _ \<Rightarrow> None)
      | [S s, v] \<Rightarrow>
          (case lg_fields s of
             [d, n, e] \<Rightarrow> if d = ''define'' \<and> e = [] then Some (n, v) else None
           | _ \<Rightarrow> None)
      | _ \<Rightarrow> None)"

definition perturb_of :: "arg list \<Rightarrow> string list option" where
  "perturb_of line =
     (case line of
        [S s] \<Rightarrow>
          (case lg_fields s of
             [c, p, f] \<Rightarrow> if c = ''perturb'' then Some (lg_words f) else None
           | _ \<Rightarrow> None)
      | _ \<Rightarrow> None)"

definition defined_vars :: "arg list list \<Rightarrow> (string \<times> arg) list" where
  "defined_vars script = List.map_filter define_of script"

definition perturb_factors :: "arg list list \<Rightarrow> string list list" where
  "perturb_factors script = List.map_filter perturb_of script"

subsection \<open>getFacesetsFromCoordinates\<close>

text \<open>
  Coordinates are floats in the source and reals here. \<^verbatim>\<open>distance.cdist([c], boundary[:,:2])\<close>
  is the row of Euclidean distances from \<open>c\<close> to the boundary points, and \<^verbatim>\<open>argmin\<close> the
  index of the first least entry.
\<close>

definition cdist :: "point \<Rightarrow> point \<Rightarrow> real" where
  "cdist a b = sqrt ((fst a - fst b)\<^sup>2 + (snd a - snd b)\<^sup>2)"

fun argmin_from :: "real list \<Rightarrow> nat \<Rightarrow> nat \<Rightarrow> real \<Rightarrow> nat" where
  \<comment> \<open>rest of the row, index of its head, best index so far, best value so far\<close>
  "argmin_from [] i best_i best = best_i"
| "argmin_from (x # xs) i best_i best =
     (if x < best then argmin_from xs (i + 1) i x else argmin_from xs (i + 1) best_i best)"

definition argmin :: "real list \<Rightarrow> nat" where
  \<comment> \<open>only used on a row that is not empty: numpy raises ValueError on an empty one\<close>
  "argmin xs = (case xs of [] \<Rightarrow> 0 | x # rest \<Rightarrow> argmin_from rest 1 0 x)"

definition nearest_index :: "point list \<Rightarrow> point \<Rightarrow> nat" where
  "nearest_index boundary c = argmin (map (cdist c) boundary)"

definition slice_assign :: "int list \<Rightarrow> nat \<Rightarrow> nat \<Rightarrow> int \<Rightarrow> int list" where
  \<comment> \<open>\<^verbatim>\<open>mat_ids[a:b] = v\<close> for indices that are not negative: entries \<open>a \<le> j < b\<close> are set,
      a slice that is empty or reaches past the end sets what there is\<close>
  "slice_assign xs a b v = map (\<lambda>jx. if a \<le> fst jx \<and> fst jx < b then v else snd jx) (enumerate 0 xs)"

definition fill_facesets :: "nat list \<Rightarrow> int list \<Rightarrow> int list" where
  \<comment> \<open>\<^verbatim>\<open>for i in range(len(fs)): mat_ids[fs[-1]:fs[i]] = i+2\<close>\<close>
  "fill_facesets fs mat_ids =
     foldl (\<lambda>m i. slice_assign m (last fs) (fs ! i) (int i + 2)) mat_ids [0..<length fs]"

definition facesets_of_key :: "point list \<Rightarrow> point list \<Rightarrow> py_error + int list" where
  \<comment> \<open>the body of \<^verbatim>\<open>for key in coords\<close>; \<^verbatim>\<open>argmin\<close> of an empty row raises ValueError\<close>
  "facesets_of_key boundary cs =
     (if cs \<noteq> [] \<and> boundary = [] then Inl ValueError
      else Inr (fill_facesets (rev (sort (map (nearest_index boundary) cs)))
                  (replicate (length boundary) 1)))"

datatype coords_arg =
    CoordList "point list"
  | CoordDict "(string \<times> point list) list"

fun facesets_loop ::
  "point list \<Rightarrow> (string \<times> point list) list \<Rightarrow> py_error + (string \<times> int list) list" where
  "facesets_loop boundary [] = Inr []"
| "facesets_loop boundary (kc # rest) =
     (case facesets_of_key boundary (snd kc) of
        Inl e \<Rightarrow> Inl e
      | Inr mat_ids \<Rightarrow>
          (case facesets_loop boundary rest of
             Inl e \<Rightarrow> Inl e
           | Inr fs \<Rightarrow> Inr ((fst kc, mat_ids) # fs)))"

definition getFacesetsFromCoordinates ::
  "coords_arg \<Rightarrow> point list \<Rightarrow> py_error + (string \<times> int list) list" where
  \<comment> \<open>the result dictionary as the list of its items, in the order of the keys of \<open>coords\<close>\<close>
  "getFacesetsFromCoordinates coords boundary =
     facesets_loop boundary
       (case coords of CoordList cs \<Rightarrow> [(''all'', cs)] | CoordDict d \<Rightarrow> d)"

definition ten_points :: "point list" where
  \<comment> \<open>a boundary of 10 ordered points, one unit apart\<close>
  "ten_points = [(0, 0), (1, 0), (2, 0), (3, 0), (4, 0), (5, 0), (6, 0), (7, 0), (8, 0), (9, 0)]"

subsection \<open>Filling the no-data cells of a raster\<close>

text \<open>
  addElevation and addAttribute fill a raster the same way: the cells that equal the no-data
  value are masked, \<^verbatim>\<open>interpolate.griddata(..., method='nearest')\<close> gives every grid position
  the value of the nearest cell that is not masked, and the last line,
  \<^verbatim>\<open>data[data == np.nan] = no_data_value\<close>, selects nothing, since no float equals NaN.
  Cell values are reals here and the no-data value is one of them. Grid positions are the
  integer pairs \<open>(x, y)\<close> of \<^verbatim>\<open>np.meshgrid\<close>, column first; comparing squared distances
  is comparing distances. Which of several equally near cells the library takes is its own
  choice: the parameter \<open>tie\<close>, which is given the equally near cells in row-major order.
\<close>

type_synonym raster = "real list list"
type_synonym cell = "(nat \<times> nat) \<times> real"

definition grid_cells :: "raster \<Rightarrow> cell list" where
  "grid_cells d =
     concat (map (\<lambda>r. map (\<lambda>c. ((c, r), d ! r ! c)) [0..<length (d ! r)]) [0..<length d])"

definition sqdist :: "nat \<times> nat \<Rightarrow> nat \<times> nat \<Rightarrow> int" where
  "sqdist p q = (int (fst p) - int (fst q))\<^sup>2 + (int (snd p) - int (snd q))\<^sup>2"

definition nearest_sources :: "cell list \<Rightarrow> nat \<times> nat \<Rightarrow> cell list" where
  "nearest_sources src p =
     filter (\<lambda>s. sqdist (fst s) p = min_list (map (\<lambda>s. sqdist (fst s) p) src)) src"

definition griddata_nearest :: "(cell list \<Rightarrow> cell) \<Rightarrow> cell list \<Rightarrow> nat \<times> nat \<Rightarrow> real" where
  "griddata_nearest tie src p = snd (tie (nearest_sources src p))"

definition fill_nodata :: "(cell list \<Rightarrow> cell) \<Rightarrow> raster \<Rightarrow> real \<Rightarrow> py_error + raster" where
  \<comment> \<open>with no valid cell there is nothing to interpolate from and the library raises\<close>
  "fill_nodata tie d no_data_value =
     (let src = filter (\<lambda>s. snd s \<noteq> no_data_value) (grid_cells d)
      in if src = [] then Inl LibraryError
         else Inr (map (\<lambda>r. map (\<lambda>c. griddata_nearest tie src (c, r)) [0..<length (d ! r)])
                     [0..<length d]))"

subsection \<open>addAttribute\<close>

text \<open>
  A value of the \<open>layers\<close> argument: None, one number, or a list whose entries are
  integers, floats or strings.
\<close>

datatype pyval = PInt int | PFloat real | PStr string

datatype layers_arg = LNone | LInt int | LFloat real | LList "pyval list"

definition is_int :: "pyval \<Rightarrow> bool" where
  \<comment> \<open>\<^verbatim>\<open>isinstance(x,int)\<close>\<close>
  "is_int x = (case x of PInt i \<Rightarrow> True | _ \<Rightarrow> False)"

definition int_of :: "pyval \<Rightarrow> int" where
  "int_of x = (case x of PInt i \<Rightarrow> i | _ \<Rightarrow> 0)"

definition sheet_and_mesh_setup ::
  "string \<Rightarrow> string \<Rightarrow> nat \<times> nat \<Rightarrow> real \<times> real \<Rightarrow> real \<times> real \<Rightarrow> string \<Rightarrow>
   string option \<Rightarrow> event list" where
  \<comment> \<open>from \<^verbatim>\<open>data.filled().tofile(...)\<close> to \<^verbatim>\<open>info = stacked_mesh.information()\<close>\<close>
  "sheet_and_mesh_setup name stacked_mesh_infile dem_dimensions lower_left_corner cell_size flip
     attribute_name =
     [WriteFile ''_temp_attrib_array.dat'',
      Bind ''tmp_sheet'' ''lg'' ''read_sheetij''
        [S name, S ''_temp_attrib_array.dat'',
         L [I (int (fst dem_dimensions)), I (int (snd dem_dimensions))],
         L [R (fst lower_left_corner), R (snd lower_left_corner)],
         L [R (fst cell_size), R (snd cell_size)], Kw ''flip'' (S flip)],
      Bind ''extrusion'' ''tmp_sheet'' ''extrude'' [R 10000],
      Call ''extrusion'' ''addatt'' [S ''esatt'', Kw ''length'' (S ''nelements'')],
      Sendline [S ''interpolate/voronoi/'', NameOf ''extrusion'', S '',esatt/1,0,0/'',
                NameOf ''tmp_sheet'', S '',elev''],
      Call ''tmp_sheet'' ''delete'' [],
      Bind ''stacked_mesh'' ''lg'' ''read'' [S stacked_mesh_infile]] @
     (case attribute_name of
        None \<Rightarrow> []
      | Some a \<Rightarrow> [Call ''stacked_mesh'' ''addatt'' [S a, Kw ''length'' (S ''nelements'')]]) @
     [Bind ''info'' ''stacked_mesh'' ''information'' []]"

definition add_eslayer :: event where
  "add_eslayer =
     Sendline [S ''cmo/addatt/'', NameOf ''stacked_mesh'',
               S ''/eslayer/VINT/scalar/nelements/linear/permanent/gxaf/0.0'']"

definition layer_commands :: "string \<Rightarrow> int \<Rightarrow> int \<Rightarrow> event list" where
  \<comment> \<open>one iteration of \<^verbatim>\<open>for layer in layers\<close>, with \<open>start = layer - 1\<close> and \<open>end = layer\<close>\<close>
  "layer_commands attribute_name v layer =
     [Sendline [S ''cmo/setatt/ '', NameOf ''stacked_mesh'', S '' eslayer 1''],
      Sendline [S ''cmo/setatt/ '', NameOf ''stacked_mesh'', S '' eslayer/ '',
                I (v * (layer - 1)), S '','', I (v * layer), S '' 2''],
      Bind ''test_elt'' ''stacked_mesh'' ''eltset_attribute'' [S ''eslayer'', I 2],
      Sendline [S ''interpolate/map/'', NameOf ''stacked_mesh'', S '','', S attribute_name,
                S ''/eltset,get,'', NameOf ''test_elt'', S ''/'', NameOf ''extrusion'',
                S '',esatt''],
      Call ''stacked_mesh'' ''add''
        [S ''add'', S attribute_name, Kw ''value'' (I (layer * 10)),
         Kw ''stride'' (L [S ''eltset'', S ''get'', NameOf ''test_elt'']),
         Kw ''attsrc'' (S attribute_name)]]"

definition attribute_finish :: "string \<Rightarrow> event list" where
  "attribute_finish outfile =
     [Call ''extrusion'' ''delete'' [],
      RemoveFile ''_temp_attrib_array.dat'',
      Call ''stacked_mesh'' ''dump'' [S outfile]]"

text \<open>
  The first four arguments are what the libraries and the kernel supply: the choice of
  \<^verbatim>\<open>griddata\<close> among equally near cells, the resampling \<^verbatim>\<open>scipy.misc.imresize\<close>, the
  five random letters of the sheet's name, and the element count
  \<^verbatim>\<open>stacked_mesh.information()['elements']\<close>. Python's \<^verbatim>\<open>//\<close> on integers is \<open>div\<close>.
\<close>

definition addAttribute ::
  "(cell list \<Rightarrow> cell) \<Rightarrow> (raster \<Rightarrow> nat \<times> nat \<Rightarrow> raster) \<Rightarrow> string \<Rightarrow> int \<Rightarrow>
   raster \<Rightarrow> string \<Rightarrow> string \<Rightarrow> nat \<times> nat \<Rightarrow> real \<times> real \<Rightarrow> real \<times> real \<Rightarrow> int \<Rightarrow>
   string \<Rightarrow> real \<Rightarrow> string option \<Rightarrow> layers_arg \<Rightarrow> unit outcome" where
  "addAttribute tie imresize name nelements
     data stacked_mesh_infile outfile dem_dimensions lower_left_corner cell_size
     number_of_layers flip no_data_value attribute_name layers =
     (case fill_nodata tie (imresize data (snd dem_dimensions, fst dem_dimensions))
             no_data_value of
        Inl e \<Rightarrow> ([], Inl e)
      | Inr filled \<Rightarrow>
          (let setup = sheet_and_mesh_setup name stacked_mesh_infile dem_dimensions
                         lower_left_corner cell_size flip attribute_name;
               att = (case attribute_name of None \<Rightarrow> ''itetclr'' | Some a \<Rightarrow> a)
           in if number_of_layers = 0 then (setup, Inl ZeroDivisionError)
              else
                (let v = nelements div number_of_layers;
                     layers' = (case layers of
                                  LNone \<Rightarrow> map PInt [1..number_of_layers]
                                | LInt i \<Rightarrow> [PInt i]
                                | LFloat x \<Rightarrow> [PFloat x]
                                | LList xs \<Rightarrow> xs)
                 in if \<not> list_all is_int layers'
                    then (setup @ [add_eslayer], Inl ValueError)
                    else (setup @ [add_eslayer] @
                            concat (map (\<lambda>x. layer_commands att v (int_of x)) layers') @
                            attribute_finish outfile,
                          Inr ()))))"

definition same_size :: "raster \<Rightarrow> nat \<times> nat \<Rightarrow> raster" where
  \<comment> \<open>\<^verbatim>\<open>imresize\<close> of a raster that has the requested size already: no cell moves, but the
      raster is made an 8-bit image first, so every value is scaled to the range from 0 (the
      least value) to 255 (the greatest) and rounded to a byte\<close>
  "same_size d shape =
     (let cmin = Min (set (concat d));
          cmax = Max (set (concat d));
          cscale = (if cmax - cmin = 0 then 1 else cmax - cmin)
      in map (map (\<lambda>v. real_of_int
                          \<lfloor>min 255 (max 0 ((v - cmin) * (255 / cscale))) + 1 / 2\<rfloor>)) d)"

subsection \<open>generateComplexFacesets\<close>

text \<open>
  The caller's arrays are numpy arrays that the function receives by reference, so they live
  in a store: \<open>arrays\<close> maps an address to the elements of the array there and
  \<open>next_free\<close> is the first address not yet in use. Every numpy operation of the function
  (\<^verbatim>\<open>deepcopy\<close>, the subtraction and the addition of a scalar) returns a new array.

  The elements are machine integers: an array of a signed integer type of \<open>LENGTH('a)\<close>
  bits (\<^verbatim>\<open>int8\<close>, \<dots>, \<^verbatim>\<open>int64\<close>, the last being \<^verbatim>\<open>dtype=int\<close>, with which
  getFacesetsFromCoordinates builds the arrays meant for this function)
  holds values of type \<open>'a word\<close>, read as integers by \<open>sint\<close>. Subtracting
  \<^verbatim>\<open>np.min(a)\<close>, a scalar of the array's type, and adding the Python integer 1 both stay
  in that type, so they are the subtraction and the addition of \<open>'a word\<close>, which wrap
  around.
\<close>

record 'a store =
  arrays :: "nat \<Rightarrow> 'a list"
  next_free :: nat

definition alloc :: "'a list \<Rightarrow> 'a store \<Rightarrow> nat \<times> 'a store" where
  "alloc xs st =
     (next_free st, st\<lparr>arrays := (arrays st)(next_free st := xs), next_free := next_free st + 1\<rparr>)"

definition np_deepcopy :: "nat \<Rightarrow> 'a store \<Rightarrow> nat \<times> 'a store" where
  "np_deepcopy a st = alloc (arrays st a) st"

definition np_min :: "'a::len word list \<Rightarrow> 'a word" where
  \<comment> \<open>the least element as integers compare; \<^verbatim>\<open>np.min\<close> of an empty array raises, which
      the caller checks first\<close>
  "np_min xs = word_of_int (min_list (map sint xs))"

definition np_sub_scalar ::
  "nat \<Rightarrow> 'a::len word \<Rightarrow> 'a word store \<Rightarrow> nat \<times> 'a word store" where
  "np_sub_scalar a m st = alloc (map (\<lambda>x. x - m) (arrays st a)) st"

definition np_add_scalar ::
  "nat \<Rightarrow> 'a::len word \<Rightarrow> 'a word store \<Rightarrow> nat \<times> 'a word store" where
  "np_add_scalar a m st = alloc (map (\<lambda>x. x + m) (arrays st a)) st"

definition np_unique :: "int list \<Rightarrow> int list" where
  \<comment> \<open>the sorted distinct values\<close>
  "np_unique xs = sort (remdups xs)"

definition values_of :: "'a::len word list \<Rightarrow> int list" where
  \<comment> \<open>the integers an array holds\<close>
  "values_of xs = map sint xs"

text \<open>
  The argument \<open>facesets\<close> is an array, or a dictionary from keys to arrays.
\<close>

datatype facesets_arg =
    FArray nat
  | FDict "string \<rightharpoonup> nat"

definition ss_file :: "nat \<Rightarrow> string" where
  \<comment> \<open>\<^verbatim>\<open>'ss%d_fs.faceset' % ss_id\<close>\<close>
  "ss_file ss_id = ''ss'' @ str_nat ss_id @ ''_fs.faceset''"

definition stride_eltset :: "string \<Rightarrow> arg" where
  \<comment> \<open>\<^verbatim>\<open>stride=['eltset','get',e.name]\<close>\<close>
  "stride_eltset e = Kw ''stride'' (L [S ''eltset'', S ''get'', NameOf e])"

definition stride_pset :: "string \<Rightarrow> arg" where
  "stride_pset p = Kw ''stride'' (L [S ''pset'', S ''get'', NameOf p])"

definition extract_surface :: "string \<Rightarrow> event list" where
  \<comment> \<open>from \<^verbatim>\<open>cmo_in = lg.read(mesh_file)\<close> to the second \<^verbatim>\<open>mo_surf.select()\<close>;
      the boundary file is \<^verbatim>\<open>_boundary_line_colors.inp\<close>\<close>
  "extract_surface mesh_file =
     [Bind ''cmo_in'' ''lg'' ''read'' [S mesh_file],
      Call ''cmo_in'' ''resetpts_itp'' [],
      Bind ''cmo_bndry'' ''lg'' ''read'' [S ''_boundary_line_colors.inp''],
      Call ''cmo_bndry'' ''resetpts_itp'' [],
      Bind ''mo_surf'' ''lg'' ''extract_surfmesh''
        [Kw ''cmo_in'' (Obj ''cmo_in''), Kw ''stride'' (L [I 1, I 0, I 0]),
         Kw ''external'' (B True), Kw ''resetpts_itp'' (B True)],
      Call ''mo_surf'' ''addatt''
        [S ''id_side'', Kw ''vtype'' (S ''vint''), Kw ''rank'' (S ''scalar''),
         Kw ''length'' (S ''nelements'')],
      Call ''mo_surf'' ''select'' [],
      Call ''mo_surf'' ''settets_normal'' [],
      Call ''mo_surf'' ''copyatt''
        [S ''itetclr'', Kw ''attname_sink'' (S ''id_side''), Kw ''mo_src'' (Obj ''mo_surf'')]] @
     map (\<lambda>att. Call ''mo_surf'' ''delatt'' [S att])
       [''itetclr0'', ''idnode0'', ''idelem0'', ''facecol'', ''itetclr1'', ''idface0'',
        ''nlayers'', ''nnperlayer'', ''neperlayer'', ''ikey_utr''] @
     [Call ''mo_surf'' ''select'' []]"

definition mark_top_bottom_sides :: "event list" where
  \<comment> \<open>from \<^verbatim>\<open>mo_surf.setatt('id_side',3)\<close> to \<^verbatim>\<open>cmo_bndry.setatt('zic',0.)\<close>\<close>
  "mark_top_bottom_sides =
     [Call ''mo_surf'' ''setatt'' [S ''id_side'', I 3],
      Bind ''ptop'' ''mo_surf'' ''pset_attribute''
        [S ''layertyp'', I (- 2), Kw ''comparison'' (S ''eq''), Kw ''stride'' (L [I 1, I 0, I 0])],
      Bind ''pbot'' ''mo_surf'' ''pset_attribute''
        [S ''layertyp'', I (- 1), Kw ''comparison'' (S ''eq''), Kw ''stride'' (L [I 1, I 0, I 0])],
      Bind ''etop'' ''ptop'' ''eltset'' [Kw ''membership'' (S ''exclusive'')],
      Bind ''ebot'' ''pbot'' ''eltset'' [Kw ''membership'' (S ''exclusive'')],
      Call ''mo_surf'' ''setatt'' [S ''id_side'', I 2, stride_eltset ''etop''],
      Call ''mo_surf'' ''setatt'' [S ''id_side'', I 1, stride_eltset ''ebot''],
      Call ''mo_surf'' ''copyatt''
        [S ''id_side'', Kw ''attname_sink'' (S ''itetclr''), Kw ''mo_src'' (Obj ''mo_surf'')],
      Call ''mo_surf'' ''select'' [],
      Call ''mo_surf'' ''setatt'' [S ''imt'', I 1],
      Bind ''esides'' ''mo_surf'' ''eltset_attribute'' [S ''id_side'', I 3],
      Bind ''psides'' ''esides'' ''pset'' [],
      Call ''mo_surf'' ''setatt'' [S ''imt'', I 2, stride_pset ''ptop''],
      Call ''mo_surf'' ''setatt'' [S ''imt'', I 1, stride_pset ''pbot''],
      Call ''mo_surf'' ''setatt'' [S ''imt'', I 3, stride_pset ''psides''],
      Call ''mo_surf'' ''select'' [],
      Call ''mo_surf'' ''addatt''
        [S ''zsave'', Kw ''vtype'' (S ''vdouble''), Kw ''rank'' (S ''scalar''),
         Kw ''length'' (S ''nnodes'')],
      Call ''mo_surf'' ''copyatt''
        [S ''zic'', Kw ''mo_src'' (Obj ''mo_surf''), Kw ''attname_sink'' (S ''zsave'')],
      Call ''mo_surf'' ''setatt'' [S ''zic'', R 0],
      Call ''cmo_bndry'' ''setatt'' [S ''zic'', R 0]]"

definition map_boundary_to_sides :: "bool \<Rightarrow> event list" where
  \<comment> \<open>from \<^verbatim>\<open>cmo_bndry.math('add',...)\<close> to the last
      \<^verbatim>\<open>mo_surf.copyatt('id_side',attname_sink='itetclr',...)\<close>\<close>
  "map_boundary_to_sides has_top =
     [Call ''cmo_bndry'' ''math''
        [S ''add'', S ''itetclr'', Kw ''value'' (I 2), Kw ''stride'' (L [I 1, I 0, I 0]),
         Kw ''cmosrc'' (Obj ''cmo_bndry''), Kw ''attsrc'' (S ''itetclr'')],
      Call ''mo_surf'' ''interpolate''
        [S ''map'', S ''id_side'', Obj ''cmo_bndry'', S ''itetclr'', stride_eltset ''esides'']] @
     (if has_top then
        [Call ''mo_surf'' ''addatt''
           [S ''ioutlet'', Kw ''vtype'' (S ''vint''), Kw ''rank'' (S ''scalar''),
            Kw ''length'' (S ''nelements'')],
         Call ''mo_surf'' ''addatt''
           [S ''ilayer'', Kw ''vtype'' (S ''vint''), Kw ''rank'' (S ''scalar''),
            Kw ''length'' (S ''nelements'')],
         Call ''mo_surf'' ''interpolate''
           [S ''map'', S ''ioutlet'', Obj ''cmo_bndry'', S ''ioutlet'', stride_eltset ''esides'']]
      else []) @
     [Call ''mo_surf'' ''copyatt''
        [S ''zsave'', Kw ''mo_src'' (Obj ''mo_surf''), Kw ''attname_sink'' (S ''zic'')],
      Call ''mo_surf'' ''delatt'' [S ''zsave''],
      Call ''mo_surf'' ''setatt'' [S ''id_side'', I 2, stride_eltset ''etop''],
      Call ''mo_surf'' ''setatt'' [S ''id_side'', I 1, stride_eltset ''ebot''],
      Call ''mo_surf'' ''copyatt''
        [S ''id_side'', Kw ''attname_sink'' (S ''itetclr''), Kw ''mo_src'' (Obj ''mo_surf'')]]"

definition split_top :: "nat \<Rightarrow> event list" where
  \<comment> \<open>the second \<^verbatim>\<open>if has_top:\<close> block; \<open>faceset_count\<close> is its value after the increment\<close>
  "split_top faceset_count =
     [Call ''mo_surf'' ''select'' [],
      Call ''mo_surf'' ''setatt'' [S ''ilayer'', R 0],
      Bind ''elay_inc'' ''ptop'' ''eltset'' [Kw ''membership'' (S ''inclusive'')],
      Call ''mo_surf'' ''setatt'' [S ''ilayer'', I 1, stride_eltset ''elay_inc''],
      Call ''mo_surf'' ''setatt'' [S ''ilayer'', I 0, stride_eltset ''etop''],
      Bind ''e1'' ''mo_surf'' ''eltset_attribute'' [S ''ilayer'', I 1, Kw ''boolstr'' (S ''eq'')],
      Bind ''e2'' ''mo_surf'' ''eltset_attribute'' [S ''ioutlet'', I 2, Kw ''boolstr'' (S ''eq'')],
      Bind ''e_out1'' ''mo_surf'' ''eltset_inter'' [L [Obj ''e1'', Obj ''e2'']],
      Call ''mo_surf'' ''setatt''
        [S ''id_side'', I (int faceset_count),
         Kw ''stride'' (L [S ''eltset'', S ''get'', Obj ''e_out1''])],
      Call ''mo_surf'' ''delatt'' [S ''ioutlet''],
      Call ''mo_surf'' ''delatt'' [S ''ilayer'']]"

definition write_faceset :: "nat \<Rightarrow> event list" where
  \<comment> \<open>one iteration of \<^verbatim>\<open>for ss_id in range(1,faceset_count+1)\<close>\<close>
  "write_faceset ss_id =
     [Bind ''mo_tmp'' ''mo_surf'' ''copy'' [],
      Call ''mo_tmp'' ''select'' [],
      Bind ''e_keep'' ''mo_tmp'' ''eltset_attribute''
        [S ''id_side'', I (int ss_id), Kw ''boolstr'' (S ''eq'')],
      Bind ''e_delete'' ''mo_tmp'' ''eltset_bool''
        [Kw ''boolstr'' (S ''not''), Kw ''eset_list'' (L [Obj ''e_keep''])],
      Call ''mo_tmp'' ''rmpoint_eltset''
        [Obj ''e_delete'', Kw ''compress'' (B True), Kw ''resetpts_itp'' (B False)],
      Call ''mo_tmp'' ''delatt'' [S ''layertyp''],
      Call ''mo_tmp'' ''delatt'' [S ''id_side''],
      Sendline [S ''dump / avs2 / '', S (ss_file ss_id), S ''/'', NameOf ''mo_tmp'',
                S ''/ 0 0 0 2''],
      Call ''mo_tmp'' ''delete'' []]"

fun join_pieces :: "string \<Rightarrow> string list \<Rightarrow> arg list" where
  \<comment> \<open>\<^verbatim>\<open>sep.join(xs)\<close>, piece by piece\<close>
  "join_pieces sep [] = []"
| "join_pieces sep [x] = [S x]"
| "join_pieces sep (x # y # ys) = S x # S sep # join_pieces sep (y # ys)"

definition write_exodus :: "string \<Rightarrow> string list \<Rightarrow> event" where
  \<comment> \<open>the last \<^verbatim>\<open>lg.sendline(cmd)\<close>; \<open>CHR 0x0A\<close> is the newline\<close>
  "write_exodus outfile all_facesets =
     Sendline ([S ''dump/exo/'', S outfile, S ''/'', NameOf ''cmo_in'',
                S (''///facesets &'' @ [CHR 0x0A])] @
               join_pieces ('' &'' @ [CHR 0x0A]) all_facesets)"

definition classify_faces :: "string \<Rightarrow> string \<Rightarrow> bool \<Rightarrow> nat \<Rightarrow> event list" where
  \<comment> \<open>everything after the boundary file is written; \<open>k\<close> is
      \<^verbatim>\<open>np.size(np.unique(boundary_attributes))\<close>\<close>
  "classify_faces outfile mesh_file has_top k =
     (let faceset_count = (if has_top then k + 2 + 1 else k + 2)
      in extract_surface mesh_file @ mark_top_bottom_sides @ map_boundary_to_sides has_top @
         (if has_top then split_top faceset_count else []) @
         concat (map write_faceset [1..<faceset_count + 1]) @
         [write_exodus outfile (map ss_file [1..<faceset_count + 1])])"

definition select_attributes :: "facesets_arg \<Rightarrow> py_error + nat \<times> nat option" where
  \<comment> \<open>the first \<^verbatim>\<open>if isinstance(facesets,dict)\<close>: the array of boundary material ids and,
      when the dictionary has the key \<^verbatim>\<open>'top'\<close>, the array that becomes
      \<^verbatim>\<open>cell_atts['ioutlet']\<close>; \<open>has_top\<close> is that the second is there\<close>
  "select_attributes facesets =
     (case facesets of
        FArray a \<Rightarrow> Inr (a, None)
      | FDict m \<Rightarrow> (case m ''all'' of None \<Rightarrow> Inl KeyError | Some a \<Rightarrow> Inr (a, m ''top'')))"

definition generateComplexFacesets ::
  "'a::len word store \<Rightarrow> string \<Rightarrow> string \<Rightarrow> point list \<Rightarrow> facesets_arg \<Rightarrow>
   'a word store \<times> unit outcome" where
  "generateComplexFacesets st outfile mesh_file boundary facesets =
     (case select_attributes facesets of
        Inl e \<Rightarrow> (st, [], Inl e)
      | Inr (a, top_ref) \<Rightarrow>
          (let (c, st1) = np_deepcopy a st
           in if arrays st1 a = [] then (st1, [], Inl ValueError)
              else
                (let (d, st2) = np_sub_scalar c (np_min (arrays st1 a)) st1;
                     (e, st3) = np_add_scalar d 1 st2;
                     boundary_attributes = arrays st3 e;
                     k = length (np_unique (values_of boundary_attributes))
                 in if np_unique (values_of boundary_attributes) \<noteq> [1..int k]
                    then (st3, [], Inl AssertionError)
                    else
                      (case generateLineConnectivity boundary True of
                         Inl err \<Rightarrow> (st3, [], Inl err)
                       | Inr conn \<Rightarrow>
                           (case writeLineAVS boundary ''_boundary_line_colors.inp'' (Some conn)
                                   (Some (values_of boundary_attributes)) None
                                   (case top_ref of
                                      None \<Rightarrow> None
                                    | Some t \<Rightarrow> Some [(''ioutlet'', values_of (arrays st3 t))]) of
                              (w, Inl err) \<Rightarrow> (st3, w, Inl err)
                            | (w, Inr _) \<Rightarrow>
                                (st3,
                                 w @ classify_faces outfile mesh_file (top_ref \<noteq> None) k,
                                 Inr ()))))))"

definition faceset_dumps :: "event list \<Rightarrow> string list" where
  \<comment> \<open>the faceset files written by \<^verbatim>\<open>dump / avs2\<close>, in order\<close>
  "faceset_dumps es =
     concat (map (\<lambda>e. case e of
                        Sendline (S p # S f # rest) \<Rightarrow> if p = ''dump / avs2 / '' then [f] else []
                      | _ \<Rightarrow> []) es)"

definition one_array :: "'a list \<Rightarrow> 'a store" where
  \<comment> \<open>a store that holds one array, at address 0\<close>
  "one_array xs = \<lparr>arrays = (\<lambda>a. [])(0 := xs), next_free = 1\<rparr>"

definition three_points :: "point list" where
  "three_points = [(0, 0), (100, 0), (100, 100)]"

definition boundary_attributes_of :: "'a store \<Rightarrow> facesets_arg \<Rightarrow> 'a list" where
  \<comment> \<open>the caller's array of boundary material ids: \<open>facesets\<close> itself or \<^verbatim>\<open>facesets['all']\<close>\<close>
  "boundary_attributes_of st facesets =
     (case facesets of
        FArray a \<Rightarrow> arrays st a
      | FDict m \<Rightarrow> (case m ''all'' of None \<Rightarrow> [] | Some a \<Rightarrow> arrays st a))"

definition outlet_attributes_of :: "'a store \<Rightarrow> facesets_arg \<Rightarrow> 'a list option" where
  \<comment> \<open>the caller's array \<^verbatim>\<open>facesets['top']\<close>, when there is one\<close>
  "outlet_attributes_of st facesets =
     (case facesets of
        FArray a \<Rightarrow> None
      | FDict m \<Rightarrow> (case m ''top'' of None \<Rightarrow> None | Some t \<Rightarrow> Some (arrays st t)))"

definition top_requested :: "facesets_arg \<Rightarrow> bool" where
  "top_requested facesets =
     (case facesets of FArray a \<Rightarrow> False | FDict m \<Rightarrow> m ''top'' \<noteq> None)"

definition allocated :: "'a store \<Rightarrow> facesets_arg \<Rightarrow> bool" where
  \<comment> \<open>the arrays the argument refers to exist in the store\<close>
  "allocated st facesets =
     (case facesets of
        FArray a \<Rightarrow> a < next_free st
      | FDict m \<Rightarrow> list_all (\<lambda>key. case m key of None \<Rightarrow> True | Some a \<Rightarrow> a < next_free st)
                     [''all'', ''top''])"

definition two_arrays :: "'a list \<Rightarrow> 'a list \<Rightarrow> 'a store" where
  \<comment> \<open>a store that holds two arrays, at the addresses 0 and 1\<close>
  "two_arrays xs ys = \<lparr>arrays = (\<lambda>a. [])(0 := xs, 1 := ys), next_free = 2\<rparr>"

definition extent_after :: "event list \<Rightarrow> kernel \<Rightarrow> nat \<Rightarrow> real option" where
  "extent_after es k j =
     (case prism_after es k of None \<Rightarrow> None | Some m \<Rightarrow> Some (vertical_extent m j))"

definition flat_disk :: kernel where
  \<comment> \<open>a session whose disk holds one surface file: a single node at height 0\<close>
  "flat_disk = \<lparr>disk = [''surface.inp'' \<mapsto> [[(0, 0, 0)]]], cmo = Map.empty\<rparr>"

section \<open>Properties\<close>

subsection \<open>Helper lemmas\<close>

lemma str_nat_digit: "n < 10 \<Longrightarrow> str_nat n = [''0123456789'' ! n]"
  by (simp add: str_nat.simps)

lemmas stackLayers_unfold =
  stackLayers_def stack_and_fill_def dump_layer_def layer_file_def matids_arg_def
  enumerate_eq_zip upt_rec str_nat_digit

lemmas kernel_unfold =
  prism_after_def layer_after_def extent_after_def kernel_bind_def kernel_call_def
  math_sub_zic_def zic_def file_args_def vertical_extent_def
  stack_surfaces_def ids_match_def footprint_def sublayer_count_def sublayers_def

lemma footprint_map:
  assumes "footprint xy s = Some fs"
  shows "footprint xy (map (\<lambda>n. (fst n, fst (snd n), g n)) s)
           = Some (map (\<lambda>n. (fst n, fst (snd n), g n)) fs)"
  using assms
  by (auto simp: footprint_def filter_map o_def split: arg.splits option.splits list.splits)

lemma zic_between:
  assumes "j < length lo" and "length lo = length hi"
  shows "zic (between i n lo hi ! j) = zic (lo ! j) + real i / real n * (zic (hi ! j) - zic (lo ! j))"
  using assms by (simp add: between_def zic_def)

lemma sublayers_within:
  assumes "s \<in> set (sublayers n lo hi)" and "j < length lo" and "length lo = length hi"
    and "zic (lo ! j) \<le> zic (hi ! j)"
  shows "zic (lo ! j) \<le> zic (s ! j) \<and> zic (s ! j) \<le> zic (hi ! j)"
proof -
  from assms(1) obtain i where i: "1 \<le> i" "i < n" and s: "s = between i n lo hi"
    by (auto simp: sublayers_def)
  define t where "t = real i / real n"
  define d where "d = zic (hi ! j) - zic (lo ! j)"
  have t: "0 \<le> t" "t \<le> 1"
    using i by (simp_all add: t_def)
  have d: "0 \<le> d"
    using assms(4) by (simp add: d_def)
  have z: "zic (s ! j) = zic (lo ! j) + t * d"
    unfolding s t_def d_def by (rule zic_between [OF assms(2,3)])
  have "0 \<le> t * d"
    using t d by simp
  moreover have "t * d \<le> d"
    using t d by (simp add: mult_left_le_one_le)
  ultimately show ?thesis
    unfolding z by (simp add: d_def)
qed

lemma subdivide_three:
  "\<exists>n1 n2. set (subdivide cs [a, b, c]) \<subseteq> {a, b, c} \<union> set (sublayers n1 a b) \<union> set (sublayers n2 b c)"
proof (cases cs)
  case Nil
  then show ?thesis by simp
next
  case (Cons n1 cs')
  show ?thesis
  proof (cases cs')
    case Nil
    then show ?thesis using Cons by (intro exI [of _ n1]) auto
  next
    case (Cons n2 cs'')
    then show ?thesis using \<open>cs = n1 # cs'\<close> by (intro exI [of _ n1] exI [of _ n2]) auto
  qed
qed

lemma subdivide_ends:
  "a \<in> set (subdivide cs [a, b, c])" "c \<in> set (subdivide cs [a, b, c])"
proof -
  show "a \<in> set (subdivide cs [a, b, c])"
    by (cases cs) simp_all
  show "c \<in> set (subdivide cs [a, b, c])"
  proof (cases cs)
    case (Cons n1 cs')
    then show ?thesis by (cases cs') simp_all
  qed simp
qed

lemma column_extent:
  assumes len: "length a = length b" "length b = length c" and j: "j < length a"
    and up: "zic (a ! j) \<le> zic (b ! j)" "zic (b ! j) \<le> zic (c ! j)"
  shows "vertical_extent (subdivide cs [a, b, c]) j = zic (c ! j) - zic (a ! j)"
proof -
  let ?m = "subdivide cs [a, b, c]"
  let ?H = "set (map (\<lambda>s. zic (s ! j)) ?m)"
  obtain n1 n2 where sub: "set ?m \<subseteq> {a, b, c} \<union> set (sublayers n1 a b) \<union> set (sublayers n2 b c)"
    using subdivide_three by blast
  have bounds: "zic (a ! j) \<le> zic (s ! j) \<and> zic (s ! j) \<le> zic (c ! j)" if "s \<in> set ?m" for s
  proof -
    from that sub consider "s = a" | "s = b" | "s = c"
      | "s \<in> set (sublayers n1 a b)" | "s \<in> set (sublayers n2 b c)"
      by blast
    then show ?thesis
    proof cases
      case 4
      from sublayers_within [OF this j len(1) up(1)] up show ?thesis by linarith
    next
      case 5
      have "j < length b" using j len by simp
      from sublayers_within [OF 5 this len(2) up(2)] up show ?thesis by linarith
    qed (use up in auto)
  qed
  have "Max ?H = zic (c ! j)"
  proof (rule Max_eqI)
    show "zic (c ! j) \<in> ?H" using subdivide_ends(2) [of c cs a b] by auto
  qed (use bounds in auto)
  moreover have "Min ?H = zic (a ! j)"
  proof (rule Min_eqI)
    show "zic (a ! j) \<in> ?H" using subdivide_ends(1) [of a cs b c] by auto
  qed (use bounds in auto)
  ultimately show ?thesis
    by (simp add: vertical_extent_def)
qed

subsection \<open>stackLayers: the shift of each layer surface\<close>

text \<open>
  C1, as stated, at a surface of one node at height 0 and thicknesses \<open>[0, 10, 20]\<close>: the
  third layer surface is written 30 below the input surface, not 20, and the column of the
  stacked mesh is 30 high, not 20. All three subtractions act on the same mesh object.
\<close>

theorem stackLayers_offsets_accumulate:
  "layer_after (fst (stackLayers ''surface.inp'' ''out.inp'' [0, 10, 20] (Some [1, 2, 3]) NoneA None))
     flat_disk ''layer3.inp'' = Some [[(0, 0, - 30)]]
   \<and> layer_after (fst (stackLayers ''surface.inp'' ''out.inp'' [0, 10, 20] (Some [1, 2, 3]) NoneA None))
       flat_disk ''layer3.inp'' \<noteq> Some (math_sub_zic 20 [[(0, 0, 0)]])
   \<and> extent_after (fst (stackLayers ''surface.inp'' ''out.inp'' [0, 10, 20] (Some [1, 2, 3]) NoneA None))
       flat_disk 0 = Some 30
   \<and> extent_after (fst (stackLayers ''surface.inp'' ''out.inp'' [0, 10, 20] (Some [1, 2, 3]) NoneA None))
       flat_disk 0 \<noteq> Some 20"
  by (simp add: stackLayers_unfold kernel_unfold flat_disk_def)

text \<open>
  C1, amended: for every surface mesh and thicknesses \<open>[0, 10, 20]\<close> with matching material
  ids (three of them), stackLayers returns normally and dumps exactly the three layer
  surfaces \<^verbatim>\<open>layer1.inp\<close>, \<^verbatim>\<open>layer2.inp\<close>, \<^verbatim>\<open>layer3.inp\<close>; the k-th of them is the input
  surface shifted by minus the running sum of the first k thicknesses (0, 10 and 30), not by
  its own thickness. The stacked mesh is made of these three surfaces, deepest first: of
  them alone when no sub-layers are asked for, with the sub-layers of each gap in between
  otherwise, and on the footprint \<open>xy_subset\<close> when one is given. It is 30 high over every
  node \<open>j\<close> of the surface within the footprint.
\<close>

theorem stackLayers_running_sum:
  assumes "disk k infile = Some [surf]" and "length ms = 3"
    and "footprint xy surf = Some fs" and "j < length fs"
  shows "snd (stackLayers infile outfile [0, 10, 20] (Some ms) xy nl) = Inr ()
    \<and> dumped_layers (fst (stackLayers infile outfile [0, 10, 20] (Some ms) xy nl))
        = [''layer1.inp'', ''layer2.inp'', ''layer3.inp'']
    \<and> prism_after (fst (stackLayers infile outfile [0, 10, 20] (Some ms) xy nl)) k
        = Some (subdivide (case nl of None \<Rightarrow> [] | Some ns \<Rightarrow> map sublayer_count ns)
                  (math_sub_zic (0 + 10 + 20) [fs] @ math_sub_zic (0 + 10) [fs]
                   @ math_sub_zic 0 [fs]))
    \<and> prism_after (fst (stackLayers infile outfile [0, 10, 20] (Some ms) xy None)) k
        = Some (math_sub_zic (0 + 10 + 20) [fs] @ math_sub_zic (0 + 10) [fs]
                @ math_sub_zic 0 [fs])
    \<and> extent_after (fst (stackLayers infile outfile [0, 10, 20] (Some ms) xy nl)) k j = Some 30"
proof -
  let ?evs = "\<lambda>nl. fst (stackLayers infile outfile [0, 10, 20] (Some ms) xy nl)"
  let ?three = "math_sub_zic (0 + 10 + 20) [fs] @ math_sub_zic (0 + 10) [fs] @ math_sub_zic 0 [fs]"
  let ?cs = "\<lambda>nl. case nl of None \<Rightarrow> [] | Some ns \<Rightarrow> map sublayer_count ns"
  have ret: "snd (stackLayers infile outfile [0, 10, 20] (Some ms) xy nl) = Inr ()"
    by (simp add: stackLayers_def)
  have dumps: "dumped_layers (?evs nl) = [''layer1.inp'', ''layer2.inp'', ''layer3.inp'']"
    by (simp add: dumped_layers_def stackLayers_unfold)
  have fp: "footprint xy (map (\<lambda>n. (fst n, fst (snd n), g n)) surf)
             = Some (map (\<lambda>n. (fst n, fst (snd n), g n)) fs)" for g
    by (rule footprint_map [OF assms(3)])
  have prism: "prism_after (?evs nl) k = Some (subdivide (?cs nl) ?three)" for nl
    using assms(1,2,3)
    by (cases nl) (simp_all add: stackLayers_unfold prism_after_def kernel_bind_def kernel_call_def
         math_sub_zic_def zic_def file_args_def stack_surfaces_def ids_match_def o_def fp
         sublayer_count_def sublayers_def)
  have "vertical_extent (subdivide (?cs nl) ?three) j = 30"
    using assms(4) by (simp add: math_sub_zic_def column_extent zic_def)
  then have "extent_after (?evs nl) k j = Some 30"
    by (simp add: extent_after_def prism)
  with ret dumps prism [of nl] prism [of None] show ?thesis by simp
qed

theorem stackLayers_running_sum_witness:
  "disk flat_disk ''surface.inp'' = Some [[(0, 0, 0)]] \<and> length [1, 2, 3 :: int] = 3
   \<and> footprint (L [R 0, R 0, R 1, R 1]) [(0, 0, 0)] = Some [(0, 0, 0)]
   \<and> (0::nat) < length [(0::real, 0::real, 0::real)]
   \<and> prism_after (fst (stackLayers ''surface.inp'' ''out.inp'' [0, 10, 20] (Some [1, 2, 3])
                          (L [R 0, R 0, R 1, R 1]) (Some [I 2, S ''''])))
        flat_disk = Some [[(0, 0, - 30)], [(0, 0, - 20)], [(0, 0, - 10)], [(0, 0, 0)]]
   \<and> prism_after (fst (stackLayers ''surface.inp'' ''out.inp'' [0, 10, 20] (Some [1, 2, 3])
                          (L [R 0, R 0, R 1, R 1]) None))
        flat_disk = Some [[(0, 0, - 30)], [(0, 0, - 10)], [(0, 0, 0)]]
   \<and> extent_after (fst (stackLayers ''surface.inp'' ''out.inp'' [0, 10, 20] (Some [1, 2, 3])
                           (L [R 0, R 0, R 1, R 1]) (Some [I 2, S ''''])))
        flat_disk 0 = Some 30"
proof -
  have d: "disk flat_disk ''surface.inp'' = Some [[(0, 0, 0)]]"
    by (simp add: flat_disk_def)
  have m: "length [1, 2, 3 :: int] = 3"
    by simp
  have f: "footprint (L [R 0, R 0, R 1, R 1]) [(0, 0, 0)] = Some [(0, 0, 0)]"
    by (simp add: footprint_def real_arg_def)
  have l: "(0::nat) < length [(0::real, 0::real, 0::real)]"
    by simp
  have u: "[Suc 0..<2] = [Suc 0]"
    by (simp add: upt_rec)
  show ?thesis
    using stackLayers_running_sum [OF d m f l, of "''out.inp''" "Some [I 2, S '''']"] d f
    by (simp add: math_sub_zic_def zic_def sublayer_count_def sublayers_def between_def u)
qed

subsection \<open>stackLayers: the length check\<close>

text \<open>
  C6: the thickness list \<open>[0, 10]\<close> with the single material id \<open>[1]\<close> is a mismatched
  pair, yet stackLayers raises nothing and hands both lists to \<^verbatim>\<open>stack_layers\<close>: the
  assertion stands inside the branch that prepends 0. The same material ids with
  thicknesses \<open>[5, 10]\<close> do reach the assertion and are rejected.
\<close>

theorem stackLayers_mismatch_not_rejected:
  "snd (stackLayers ''surface.inp'' ''out.inp'' [0, 10] (Some [1]) NoneA None) = Inr ()
   \<and> Call ''stack'' ''stack_layers''
        [L [S ''layer2.inp'', S ''layer1.inp''], Kw ''flip_opt'' (B True), Kw ''nlayers'' (L [S '''']),
         Kw ''matids'' (L [I 1]), Kw ''xy_subset'' NoneA]
       \<in> set (fst (stackLayers ''surface.inp'' ''out.inp'' [0, 10] (Some [1]) NoneA None))
   \<and> stackLayers ''surface.inp'' ''out.inp'' [5, 10] (Some [1]) NoneA None = ([], Inl AssertionError)"
  by (simp add: stackLayers_unfold)

subsection \<open>buildUniformTriplane: the refinement schedule\<close>

text \<open>
  C7: whenever buildUniformTriplane gets as far as the kernel (it returns normally), for
  every boundary and \<open>min_edge\<close> the commands it issues contain exactly one refinement
  schedule: for the thresholds 64, 32, 16, 8, 4, 2, 1 times \<open>min_edge\<close>, in this order, one
  Rivara edge refinement, then reconnection and smoothing three times, then a point
  compaction. No refinement is issued before or after the schedule.
\<close>

theorem buildUniformTriplane_schedule:
  assumes "snd (buildUniformTriplane boundary outfile counterclockwise connectivity min_edge) = Inr ()"
  shows "\<exists>pre post.
     fst (buildUniformTriplane boundary outfile counterclockwise connectivity min_edge) =
       pre @
       concat (map (\<lambda>scale.
          [Call ''motri'' ''refine''
             [Kw ''refine_option'' (S ''rivara''), Kw ''refine_type'' (S ''edge''),
              Kw ''values'' (L [R scale]), Kw ''inclusive_flag'' (S ''inclusive'')],
           Call ''motri'' ''recon'' [I 0], Call ''motri'' ''smooth'' [],
           Call ''motri'' ''recon'' [I 0], Call ''motri'' ''smooth'' [],
           Call ''motri'' ''recon'' [I 0], Call ''motri'' ''smooth'' [],
           Call ''motri'' ''rmpoint_compress'' [Kw ''resetpts_itp'' (B False)]])
         [min_edge * 64, min_edge * 32, min_edge * 16, min_edge * 8, min_edge * 4,
          min_edge * 2, min_edge * 1]) @
       post
     \<and> filter is_refine pre = [] \<and> filter is_refine post = []"
proof -
  obtain conn where conn:
    "(case connectivity of None \<Rightarrow> generateLineConnectivity boundary False | Some c \<Rightarrow> Inr c)
       = Inr conn"
    using assms by (auto simp: buildUniformTriplane_def split: sum.splits)
  let ?pre = "[WriteFile ''poly_1.inp''] @ triangulate_boundary counterclockwise"
  let ?post = "final_smoothing outfile"
  have events: "fst (buildUniformTriplane boundary outfile counterclockwise connectivity min_edge)
      = ?pre @ concat (map refine_pass (length_scales min_edge)) @ ?post"
    using conn by (simp add: buildUniformTriplane_def writeLineAVS_def att_count_def)
  have pre: "filter is_refine ?pre = []"
    by (simp add: triangulate_boundary_def is_refine_def)
  have post: "filter is_refine ?post = []"
    by (simp add: final_smoothing_def is_refine_def numeral_eq_Suc split: option.splits)
  have loop: "concat (map refine_pass (length_scales min_edge)) =
      concat (map (\<lambda>scale.
          [Call ''motri'' ''refine''
             [Kw ''refine_option'' (S ''rivara''), Kw ''refine_type'' (S ''edge''),
              Kw ''values'' (L [R scale]), Kw ''inclusive_flag'' (S ''inclusive'')],
           Call ''motri'' ''recon'' [I 0], Call ''motri'' ''smooth'' [],
           Call ''motri'' ''recon'' [I 0], Call ''motri'' ''smooth'' [],
           Call ''motri'' ''recon'' [I 0], Call ''motri'' ''smooth'' [],
           Call ''motri'' ''rmpoint_compress'' [Kw ''resetpts_itp'' (B False)]])
         [min_edge * 64, min_edge * 32, min_edge * 16, min_edge * 8, min_edge * 4,
          min_edge * 2, min_edge * 1])"
    by (simp add: refine_pass_def length_scales_def numeral_eq_Suc)
  show ?thesis
    unfolding events loop using pre post by blast
qed

theorem buildUniformTriplane_schedule_witness:
  "snd (buildUniformTriplane [(0, 0), (100, 0), (100, 100), (0, 100)] (Some ''tri.inp'') False None 16)
     = Inr ()
   \<and> (\<exists>pre post.
        fst (buildUniformTriplane [(0, 0), (100, 0), (100, 100), (0, 100)] (Some ''tri.inp'') False None 16) =
          pre @
          concat (map (\<lambda>scale.
             [Call ''motri'' ''refine''
                [Kw ''refine_option'' (S ''rivara''), Kw ''refine_type'' (S ''edge''),
                 Kw ''values'' (L [R scale]), Kw ''inclusive_flag'' (S ''inclusive'')],
              Call ''motri'' ''recon'' [I 0], Call ''motri'' ''smooth'' [],
              Call ''motri'' ''recon'' [I 0], Call ''motri'' ''smooth'' [],
              Call ''motri'' ''recon'' [I 0], Call ''motri'' ''smooth'' [],
              Call ''motri'' ''rmpoint_compress'' [Kw ''resetpts_itp'' (B False)]])
            [1024, 512, 256, 128, 64, 32, 16]) @
          post
        \<and> filter is_refine pre = [] \<and> filter is_refine post = [])"
proof -
  have ok: "snd (buildUniformTriplane [(0, 0), (100, 0), (100, 100), (0, 100)] (Some ''tri.inp'') False None 16)
     = Inr ()"
    by (simp add: buildUniformTriplane_def generateLineConnectivity_def writeLineAVS_def att_count_def)
  show ?thesis
    using buildUniformTriplane_schedule [OF ok] ok by simp
qed

subsection \<open>buildRefinedTriplane: the perturbation factors\<close>

lemmas script_unfold =
  refined_script_def perturb_of_def define_of_def lg_fields_def lg_words_def
  strip_def Let_def

lemma refined_script_defines:
  "map fst (defined_vars (refined_script outfile h delta slope refine_dist)) =
     [''ID'', ''OUTFILE_GMV'', ''OUTFILE_AVS'', ''OUTFILE_LG'', ''POLY_FILE'', ''LINE_FILE'',
      ''QUAD_FILE'', ''EXCAVATE_FILE'', ''PRE_FINAL_FILE'', ''PRE_FINAL_MASSAGE'', ''H_SCALE'',
      ''H_EPS'', ''H_SCALE2'', ''H_EXTRUDE'', ''H_TRANS'', ''H_PRIME'', ''H_PRIME2'', ''H_SCALE3'',
      ''H_SCALE8'', ''H_SCALE16'', ''H_SCALE32'', ''H_SCALE64'', ''PURTURB8'', ''PURTURB16'',
      ''PURTURB32'', ''PURTURB64'', ''PARAM_A'', ''PARAM_B'', ''PARAM_A2'', ''PARAM_B2'', ''THETA'',
      ''X1'', ''Y1'', ''Z1'', ''X2'', ''Y2'', ''Z2'', ''FAMILY'', ''OUTPUT_INTER_ID_SSINT'']
   \<and> map snd (filter (\<lambda>d. take 7 (fst d) = ''PURTURB'')
                 (defined_vars (refined_script outfile h delta slope refine_dist))) =
     [R (8 * 0.05 * h), R (16 * 0.05 * h), R (32 * 0.05 * h), R (64 * 0.05 * h)]"
  by (simp add: defined_vars_def script_unfold)

lemma refined_script_perturbs:
  "perturb_factors (refined_script outfile h delta slope refine_dist) =
     [[''PERTURB64'', ''PERTURB64'', ''0.0''], [''PERTURB32'', ''PERTURB32'', ''0.0''],
      [''PERTURB16'', ''PERTURB16'', ''0.0''], [''PERTURB8'', ''PERTURB8'', ''0.0'']]"
  by (simp add: perturb_factors_def script_unfold)

text \<open>
  C8: for every base length \<open>h\<close>, the script that buildRefinedTriplane hands to the kernel
  computes 0.05 * s * h for s = 8, 16, 32, 64 and stores it under the names PURTURB8 ..
  PURTURB64, while the four perturb commands take their x and y factors from the names
  PERTURB64, PERTURB32, PERTURB16, PERTURB8, which the script never defines. The computed
  magnitudes therefore never reach the perturbation.
\<close>

theorem buildRefinedTriplane_perturb_undefined:
  "fst (buildRefinedTriplane [(0, 0), (100, 0), (100, 100), (0, 100)] [(50, 50)] ''mesh.inp'' h None
          delta slope refine_dist)
     = [WriteFile ''poly_1.inp'', WriteFile ''intersections_1.inp'',
        CallLaGriT (refined_script ''mesh.inp'' h delta slope refine_dist)]
   \<and> perturb_factors (refined_script ''mesh.inp'' h delta slope refine_dist) =
       [[''PERTURB64'', ''PERTURB64'', ''0.0''], [''PERTURB32'', ''PERTURB32'', ''0.0''],
        [''PERTURB16'', ''PERTURB16'', ''0.0''], [''PERTURB8'', ''PERTURB8'', ''0.0'']]
   \<and> ''PERTURB64'' \<notin> set (map fst (defined_vars (refined_script ''mesh.inp'' h delta slope refine_dist)))
   \<and> ''PERTURB32'' \<notin> set (map fst (defined_vars (refined_script ''mesh.inp'' h delta slope refine_dist)))
   \<and> ''PERTURB16'' \<notin> set (map fst (defined_vars (refined_script ''mesh.inp'' h delta slope refine_dist)))
   \<and> ''PERTURB8'' \<notin> set (map fst (defined_vars (refined_script ''mesh.inp'' h delta slope refine_dist)))
   \<and> map snd (filter (\<lambda>d. take 7 (fst d) = ''PURTURB'')
                 (defined_vars (refined_script ''mesh.inp'' h delta slope refine_dist))) =
       [R (8 * 0.05 * h), R (16 * 0.05 * h), R (32 * 0.05 * h), R (64 * 0.05 * h)]"
proof -
  have events: "fst (buildRefinedTriplane [(0, 0), (100, 0), (100, 100), (0, 100)] [(50, 50)]
          ''mesh.inp'' h None delta slope refine_dist)
     = [WriteFile ''poly_1.inp'', WriteFile ''intersections_1.inp'',
        CallLaGriT (refined_script ''mesh.inp'' h delta slope refine_dist)]"
    by (simp add: buildRefinedTriplane_def generateLineConnectivity_def writeLineAVS_def
        att_count_def)
  have names: "''PERTURB64'' \<notin> set (map fst (defined_vars (refined_script ''mesh.inp'' h delta slope refine_dist)))
      \<and> ''PERTURB32'' \<notin> set (map fst (defined_vars (refined_script ''mesh.inp'' h delta slope refine_dist)))
      \<and> ''PERTURB16'' \<notin> set (map fst (defined_vars (refined_script ''mesh.inp'' h delta slope refine_dist)))
      \<and> ''PERTURB8'' \<notin> set (map fst (defined_vars (refined_script ''mesh.inp'' h delta slope refine_dist)))"
    by (simp add: refined_script_defines [THEN conjunct1])
  show ?thesis
    using events names refined_script_perturbs [of "''mesh.inp''" h delta slope refine_dist]
      refined_script_defines [of "''mesh.inp''" h delta slope refine_dist, THEN conjunct2]
    by blast
qed

subsection \<open>getFacesetsFromCoordinates: the ids of the ranges\<close>

lemma nearest_index_ten_points:
  "nearest_index ten_points (2, 0) = 2"
  "nearest_index ten_points (7, 0) = 7"
  "nearest_index ten_points (9, 0) = 9"
  by (simp_all add: nearest_index_def ten_points_def argmin_def cdist_def)

lemma length_ten_points: "length ten_points = 10"
  by (simp add: ten_points_def)

lemma fill_facesets_9_7_2:
  "fill_facesets [9, 7, 2] [1, 1, 1, 1, 1, 1, 1, 1, 1, 1] = [1, 1, 3, 3, 3, 3, 3, 2, 2, 1]"
  by (simp add: fill_facesets_def slice_assign_def enumerate_eq_zip upt_rec)

lemma fill_facesets_7_2:
  "fill_facesets [7, 2] [1, 1, 1, 1, 1, 1, 1, 1, 1, 1] = [1, 1, 2, 2, 2, 2, 2, 1, 1, 1]"
  by (simp add: fill_facesets_def slice_assign_def enumerate_eq_zip upt_rec)

lemma replicate_10_ones: "replicate 10 (1::int) = [1, 1, 1, 1, 1, 1, 1, 1, 1, 1]"
  by (simp add: numeral_eq_Suc)

lemma facesets_of_ten:
  assumes "length boundary = 10" and "sort (map (nearest_index boundary) cs) = fs"
  shows "getFacesetsFromCoordinates (CoordList cs) boundary =
           Inr [(''all'', fill_facesets (rev fs) [1, 1, 1, 1, 1, 1, 1, 1, 1, 1])]"
proof -
  have "boundary \<noteq> []"
    using assms(1) by auto
  then show ?thesis
    by (simp add: getFacesetsFromCoordinates_def facesets_of_key_def assms replicate_10_ones)
qed

text \<open>
  C2, as stated, at ten points one unit apart and queries lying on the points 2, 7 and 9:
  the range \<open>[2,7)\<close> gets the id 3 and the range \<open>[7,9)\<close> the id 2, not 2 and 3. The
  loop fills \<open>[2,9)\<close> with 2 and then overwrites \<open>[2,7)\<close> with 3.
\<close>

theorem getFacesetsFromCoordinates_three_markers:
  "length ten_points = 10
   \<and> nearest_index ten_points (2, 0) = 2
   \<and> nearest_index ten_points (7, 0) = 7
   \<and> nearest_index ten_points (9, 0) = 9
   \<and> getFacesetsFromCoordinates (CoordList [(2, 0), (7, 0), (9, 0)]) ten_points
       = Inr [(''all'', [1, 1, 3, 3, 3, 3, 3, 2, 2, 1])]
   \<and> getFacesetsFromCoordinates (CoordList [(2, 0), (7, 0), (9, 0)]) ten_points
       \<noteq> Inr [(''all'', [1, 1, 2, 2, 2, 2, 2, 3, 3, 1])]"
  using facesets_of_ten [OF length_ten_points, of "[(2, 0), (7, 0), (9, 0)]" "[2, 7, 9]"]
  by (simp add: nearest_index_ten_points fill_facesets_9_7_2 length_ten_points)

text \<open>
  C2, amended: for every boundary of 10 points and query coordinates whose nearest boundary
  indices are 2, 7 and 9 (in any order), the material-id array is 1 everywhere except that
  each half-open range between consecutive markers receives an id ascending from 2,
  starting at the highest range: \<open>[7,9)\<close> gets 2 and \<open>[2,7)\<close> gets 3; with only the
  markers 2 and 7 the array is 1 everywhere except \<open>[2,7)\<close>, which gets 2.
\<close>

theorem getFacesetsFromCoordinates_ranges:
  assumes "length boundary = 10"
    and "sort (map (nearest_index boundary) cs2) = [2, 7]"
    and "sort (map (nearest_index boundary) cs3) = [2, 7, 9]"
  shows "getFacesetsFromCoordinates (CoordList cs2) boundary
           = Inr [(''all'', [1, 1, 2, 2, 2, 2, 2, 1, 1, 1])]
       \<and> getFacesetsFromCoordinates (CoordList cs3) boundary
           = Inr [(''all'', [1, 1, 3, 3, 3, 3, 3, 2, 2, 1])]"
  using facesets_of_ten [OF assms(1,2)] facesets_of_ten [OF assms(1,3)]
  by (simp add: fill_facesets_7_2 fill_facesets_9_7_2)

theorem getFacesetsFromCoordinates_ranges_witness:
  "length ten_points = 10
   \<and> sort (map (nearest_index ten_points) [(7, 0), (2, 0)]) = [2, 7]
   \<and> sort (map (nearest_index ten_points) [(9, 0), (2, 0), (7, 0)]) = [2, 7, 9]
   \<and> getFacesetsFromCoordinates (CoordList [(7, 0), (2, 0)]) ten_points
       = Inr [(''all'', [1, 1, 2, 2, 2, 2, 2, 1, 1, 1])]
   \<and> getFacesetsFromCoordinates (CoordList [(9, 0), (2, 0), (7, 0)]) ten_points
       = Inr [(''all'', [1, 1, 3, 3, 3, 3, 3, 2, 2, 1])]"
proof -
  have two: "sort (map (nearest_index ten_points) [(7, 0), (2, 0)]) = [2, 7]"
    by (simp add: nearest_index_ten_points)
  have three: "sort (map (nearest_index ten_points) [(9, 0), (2, 0), (7, 0)]) = [2, 7, 9]"
    by (simp add: nearest_index_ten_points)
  show ?thesis
    using getFacesetsFromCoordinates_ranges [OF length_ten_points two three] two three
    by (simp add: length_ten_points)
qed

subsection \<open>Filling no-data cells: no sentinel is left, and filling again changes nothing\<close>

lemma grid_cells_set:
  "set (grid_cells d) = {((c, r), d ! r ! c) | r c. r < length d \<and> c < length (d ! r)}"
  unfolding grid_cells_def by (auto simp: image_iff)

lemma grid_cells_iff:
  "(p, v) \<in> set (grid_cells d) \<longleftrightarrow> snd p < length d \<and> fst p < length (d ! snd p) \<and> v = d ! snd p ! fst p"
  unfolding grid_cells_set by (cases p) auto

lemma min_list_in: "xs \<noteq> [] \<Longrightarrow> min_list xs \<in> set (xs :: int list)"
  by (simp add: min_list_Min)

lemma min_list_le: "x \<in> set xs \<Longrightarrow> min_list xs \<le> (x :: int)"
  by (cases "xs = []") (auto simp: min_list_Min)

lemma nearest_sources_nonempty: 
  assumes "src \<noteq> []" shows "nearest_sources src p \<noteq> []"
proof -
  have "min_list (map (\<lambda>s. sqdist (fst s) p) src) \<in> set (map (\<lambda>s. sqdist (fst s) p) src)"
    using assms by (intro min_list_in) simp
  then obtain s where "s \<in> set src" "sqdist (fst s) p = min_list (map (\<lambda>s. sqdist (fst s) p) src)"
    by auto
  then show ?thesis
    by (auto simp: nearest_sources_def filter_empty_conv)
qed

lemma nearest_sources_subset: "set (nearest_sources src p) \<subseteq> set src"
  by (auto simp: nearest_sources_def)

lemma sqdist_nonneg: "0 \<le> sqdist p q" by (simp add: sqdist_def)

lemma sqdist_zero: "sqdist p q = 0 \<longleftrightarrow> p = q"
  by (cases p; cases q) (simp add: sqdist_def)

lemma nearest_sources_self:
  assumes "(p, v) \<in> set src" and "s \<in> set (nearest_sources src p)"
  shows "fst s = p"
proof -
  let ?ds = "map (\<lambda>s. sqdist (fst s) p) src"
  have "sqdist (fst (p, v)) p \<in> set ?ds" 
    using assms(1) by force
  moreover have "sqdist p p = 0"
    by (simp add: sqdist_zero)
  ultimately have "0 \<in> set ?ds"
    by simp
  then have "min_list ?ds \<le> 0" 
    by (rule min_list_le)
  moreover have "0 \<le> min_list ?ds"
  proof -
    have "?ds \<noteq> []" using assms(1) by auto
    then have "min_list ?ds \<in> set ?ds" by (rule min_list_in)
    then show ?thesis by (auto simp: sqdist_nonneg)
  qed
  ultimately have "min_list ?ds = 0" by simp
  with assms(2) have "sqdist (fst s) p = 0" by (simp add: nearest_sources_def)
  then show ?thesis by (simp add: sqdist_zero)
qed

lemma griddata_nearest_in:
  assumes tie: "\<forall>cs. cs \<noteq> [] \<longrightarrow> tie cs \<in> set cs" and "src \<noteq> []"
  shows "griddata_nearest tie src p \<in> snd ` set src"
proof -
  have "tie (nearest_sources src p) \<in> set (nearest_sources src p)"
    using tie nearest_sources_nonempty[OF assms(2)] by blast
  then have "tie (nearest_sources src p) \<in> set src"
    using nearest_sources_subset by blast
  then show ?thesis by (simp add: griddata_nearest_def)
qed

lemma griddata_nearest_self:
  assumes tie: "\<forall>cs. cs \<noteq> [] \<longrightarrow> tie cs \<in> set cs" 
    and "r < length d" and "c < length (d ! r)"
  shows "griddata_nearest tie (grid_cells d) (c, r) = d ! r ! c"
proof -
  have mem: "((c, r), d ! r ! c) \<in> set (grid_cells d)"
    using assms(2,3) by (simp add: grid_cells_iff)
  then have ne: "grid_cells d \<noteq> []" by auto
  obtain q v where qv: "tie (nearest_sources (grid_cells d) (c, r)) = (q, v)"
    by (cases "tie (nearest_sources (grid_cells d) (c, r))")
  have s: "(q, v) \<in> set (nearest_sources (grid_cells d) (c, r))"
    using tie nearest_sources_nonempty[OF ne, of "(c, r)"] qv by metis
  have q: "q = (c, r)"
    using nearest_sources_self[OF mem s] by simp
  have "(q, v) \<in> set (grid_cells d)"
    using s nearest_sources_subset by blast
  then have "v = d ! r ! c"
    unfolding q by (simp add: grid_cells_iff)
  then show ?thesis by (simp add: griddata_nearest_def qv)
qed

lemma fill_nodata_shape:
  assumes "fill_nodata tie d nd = Inr out"
  shows "length out = length d" and "r < length d \<Longrightarrow> length (out ! r) = length (d ! r)"
  using assms by (auto simp: fill_nodata_def Let_def split: if_splits)

lemma fill_nodata_valid:
  assumes tie: "\<forall>cs. cs \<noteq> [] \<longrightarrow> tie cs \<in> set cs"
    and "fill_nodata tie d nd = Inr out"
    and "r < length out" and "c < length (out ! r)"
  shows "out ! r ! c \<noteq> nd"
proof -
  let ?src = "filter (\<lambda>s. snd s \<noteq> nd) (grid_cells d)"
  have ne: "?src \<noteq> []" and out: "out = map (\<lambda>r. map (\<lambda>c. griddata_nearest tie ?src (c, r)) [0..<length (d ! r)]) [0..<length d]"
    using assms(2) by (auto simp: fill_nodata_def Let_def split: if_splits)
  have r: "r < length d" using assms(3) out by simp
  have c: "c < length (d ! r)" using assms(4) r out by simp
  have "out ! r ! c = griddata_nearest tie ?src (c, r)"
    using r c by (simp add: out)
  moreover have "griddata_nearest tie ?src (c, r) \<in> snd ` set ?src"
    using griddata_nearest_in[OF tie ne] .
  ultimately show ?thesis by auto
qed

lemma fill_nodata_fixpoint:
  assumes tie: "\<forall>cs. cs \<noteq> [] \<longrightarrow> tie cs \<in> set cs"
    and valid: "\<And>r c. r < length out \<Longrightarrow> c < length (out ! r) \<Longrightarrow> out ! r ! c \<noteq> nd"
    and ne: "grid_cells out \<noteq> []"
  shows "fill_nodata tie out nd = Inr out"
proof -
  have "\<And>s. s \<in> set (grid_cells out) \<Longrightarrow> snd s \<noteq> nd"
    using valid by (fastforce simp: grid_cells_set)
  then have src: "filter (\<lambda>s. snd s \<noteq> nd) (grid_cells out) = grid_cells out"
    by (simp add: filter_id_conv)
  have "map (\<lambda>r. map (\<lambda>c. griddata_nearest tie (grid_cells out) (c, r)) [0..<length (out ! r)]) [0..<length out] = out"
  proof (rule nth_equalityI)
    show "length (map (\<lambda>r. map (\<lambda>c. griddata_nearest tie (grid_cells out) (c, r)) [0..<length (out ! r)]) [0..<length out]) = length out"
      by simp
  next
    fix r assume "r < length (map (\<lambda>r. map (\<lambda>c. griddata_nearest tie (grid_cells out) (c, r)) [0..<length (out ! r)]) [0..<length out])"
    then have r: "r < length out" by simp
    have "map (\<lambda>c. griddata_nearest tie (grid_cells out) (c, r)) [0..<length (out ! r)] = out ! r"
      by (rule nth_equalityI) (simp_all add: griddata_nearest_self[OF tie r])
    then show "map (\<lambda>r. map (\<lambda>c. griddata_nearest tie (grid_cells out) (c, r)) [0..<length (out ! r)]) [0..<length out] ! r = out ! r"
      using r by simp
  qed
  then show ?thesis
    using ne by (simp add: fill_nodata_def src)
qed

text \<open>
  C9: for every raster with at least one cell that differs from the no-data value, whichever
  of several equally near cells the interpolation takes, the fill step returns a raster
  none of whose cells equals the no-data value, and the fill step applied to that raster
  returns it unchanged.
\<close>

theorem fill_nodata_idempotent:
  assumes tie: "\<forall>cs. cs \<noteq> [] \<longrightarrow> tie cs \<in> set cs"
    and valid: "\<exists>row\<in>set d. \<exists>v\<in>set row. v \<noteq> no_data_value"
  shows "\<exists>out. fill_nodata tie d no_data_value = Inr out
          \<and> (\<forall>row\<in>set out. \<forall>v\<in>set row. v \<noteq> no_data_value)
          \<and> fill_nodata tie out no_data_value = Inr out"
proof -
  obtain r c where r: "r < length d" and c: "c < length (d ! r)"
    and v: "d ! r ! c \<noteq> no_data_value"
    using valid by (metis in_set_conv_nth)
  let ?src = "filter (\<lambda>s. snd s \<noteq> no_data_value) (grid_cells d)"
  have "((c, r), d ! r ! c) \<in> set ?src"
    using r c v by (simp add: grid_cells_iff)
  then have ne: "?src \<noteq> []"
    by (metis empty_iff empty_set)
  then obtain out where out: "fill_nodata tie d no_data_value = Inr out"
    by (simp add: fill_nodata_def Let_def)
  have ok: "\<And>r c. r < length out \<Longrightarrow> c < length (out ! r) \<Longrightarrow> out ! r ! c \<noteq> no_data_value"
    using fill_nodata_valid [OF tie out] .
  have "((c, r), out ! r ! c) \<in> set (grid_cells out)"
    using r c fill_nodata_shape [OF out] by (simp add: grid_cells_iff)
  then have ne': "grid_cells out \<noteq> []"
    by auto
  have again: "fill_nodata tie out no_data_value = Inr out"
    using fill_nodata_fixpoint [OF tie ok ne'] .
  have "\<forall>row\<in>set out. \<forall>v\<in>set row. v \<noteq> no_data_value"
    using ok by (metis in_set_conv_nth)
  with out again show ?thesis
    by blast
qed

theorem fill_nodata_idempotent_witness:
  "(\<exists>row\<in>set [[- 9999, 5], [7, - 9999 :: real]]. \<exists>v\<in>set row. v \<noteq> - 9999)
   \<and> fill_nodata hd [[- 9999, 5], [7, - 9999]] (- 9999) = Inr [[5, 5], [7, 5]]
   \<and> list_all (list_all (\<lambda>v. v \<noteq> - 9999)) [[5, 5], [7, 5 :: real]]
   \<and> fill_nodata hd [[5, 5], [7, 5]] (- 9999) = Inr [[5, 5], [7, 5]]"
proof -
  have tie: "\<forall>cs :: cell list. cs \<noteq> [] \<longrightarrow> hd cs \<in> set cs"
    by simp
  have valid: "\<exists>row\<in>set [[- 9999, 5], [7, - 9999 :: real]]. \<exists>v\<in>set row. v \<noteq> - 9999"
    by simp
  have first: "fill_nodata hd [[- 9999, 5], [7, - 9999]] (- 9999) = Inr [[5, 5], [7, 5]]"
    by (simp add: fill_nodata_def grid_cells_def griddata_nearest_def nearest_sources_def
        sqdist_def upt_rec Let_def)
  show ?thesis
    using fill_nodata_idempotent [OF tie valid] valid first by simp
qed

subsection \<open>addAttribute: when the layer list is validated\<close>

lemma same_size_2x2: "same_size [[1, 2], [3, 4]] shape = [[0, 85], [170, 255]]"
  by (simp add: same_size_def)

lemma fill_nodata_2x2:
  "fill_nodata hd [[0, 85], [170, 255]] (- 9999) = Inr [[0, 85], [170, 255]]"
  by (simp add: fill_nodata_def grid_cells_def griddata_nearest_def nearest_sources_def
      sqdist_def upt_rec Let_def)

text \<open>
  C5, as stated, at the layer list \<open>[1, 2.5]\<close>: the ValueError is raised after the temporary
  raster file has been written and after eight kernel commands have been issued, the
  reading of the sheet first among them; the file is left behind.
\<close>

theorem addAttribute_validates_late:
  "addAttribute hd same_size ''abcde'' 8 [[1, 2], [3, 4]] ''stacked.inp'' ''out.inp''
     (2, 2) (0, 0) (1, 1) 2 ''y'' (- 9999) None (LList [PInt 1, PFloat 2.5])
   = ([WriteFile ''_temp_attrib_array.dat'',
       Bind ''tmp_sheet'' ''lg'' ''read_sheetij''
         [S ''abcde'', S ''_temp_attrib_array.dat'', L [I 2, I 2], L [R 0, R 0], L [R 1, R 1],
          Kw ''flip'' (S ''y'')],
       Bind ''extrusion'' ''tmp_sheet'' ''extrude'' [R 10000],
       Call ''extrusion'' ''addatt'' [S ''esatt'', Kw ''length'' (S ''nelements'')],
       Sendline [S ''interpolate/voronoi/'', NameOf ''extrusion'', S '',esatt/1,0,0/'',
                 NameOf ''tmp_sheet'', S '',elev''],
       Call ''tmp_sheet'' ''delete'' [],
       Bind ''stacked_mesh'' ''lg'' ''read'' [S ''stacked.inp''],
       Bind ''info'' ''stacked_mesh'' ''information'' [],
       Sendline [S ''cmo/addatt/'', NameOf ''stacked_mesh'',
                 S ''/eslayer/VINT/scalar/nelements/linear/permanent/gxaf/0.0'']],
      Inl ValueError)"
  by (simp add: addAttribute_def same_size_2x2 fill_nodata_2x2 sheet_and_mesh_setup_def
      add_eslayer_def is_int_def)

text \<open>
  C5, amended: for every call of addAttribute whose layer list contains a non-integer entry,
  whose raster can be filled and whose number of layers is not 0, a ValueError is raised
  before any per-layer command is issued and before the output mesh is dumped. By then the
  temporary raster file has been written and not removed, and the kernel has been told to
  read the sheet, extrude it, read the stacked mesh and add the attribute \<open>eslayer\<close>.
\<close>

theorem addAttribute_non_integer_layer:
  assumes "fill_nodata tie (imresize data (snd dem_dimensions, fst dem_dimensions)) no_data_value
             = Inr filled"
    and "number_of_layers \<noteq> 0"
    and "x \<in> set xs" and "\<not> is_int x"
  shows "addAttribute tie imresize name nelements data stacked_mesh_infile outfile dem_dimensions
           lower_left_corner cell_size number_of_layers flip no_data_value attribute_name (LList xs)
         = (sheet_and_mesh_setup name stacked_mesh_infile dem_dimensions lower_left_corner
              cell_size flip attribute_name @ [add_eslayer],
            Inl ValueError)
       \<and> hd (sheet_and_mesh_setup name stacked_mesh_infile dem_dimensions lower_left_corner
              cell_size flip attribute_name @ [add_eslayer])
           = WriteFile ''_temp_attrib_array.dat''
       \<and> Bind ''stacked_mesh'' ''lg'' ''read'' [S stacked_mesh_infile]
           \<in> set (sheet_and_mesh_setup name stacked_mesh_infile dem_dimensions lower_left_corner
                    cell_size flip attribute_name @ [add_eslayer])
       \<and> RemoveFile ''_temp_attrib_array.dat''
           \<notin> set (sheet_and_mesh_setup name stacked_mesh_infile dem_dimensions lower_left_corner
                    cell_size flip attribute_name @ [add_eslayer])
       \<and> Call ''stacked_mesh'' ''dump'' [S outfile]
           \<notin> set (sheet_and_mesh_setup name stacked_mesh_infile dem_dimensions lower_left_corner
                    cell_size flip attribute_name @ [add_eslayer])
       \<and> set (layer_commands a v layer)
           \<inter> set (sheet_and_mesh_setup name stacked_mesh_infile dem_dimensions lower_left_corner
                    cell_size flip attribute_name @ [add_eslayer]) = {}"
proof -
  have "\<not> list_all is_int xs"
    using assms(3,4) by (auto simp: list_all_iff)
  then have result: "addAttribute tie imresize name nelements data stacked_mesh_infile outfile
           dem_dimensions lower_left_corner cell_size number_of_layers flip no_data_value
           attribute_name (LList xs)
         = (sheet_and_mesh_setup name stacked_mesh_infile dem_dimensions lower_left_corner
              cell_size flip attribute_name @ [add_eslayer],
            Inl ValueError)"
    using assms(1,2) by (simp add: addAttribute_def Let_def)
  have rest: "hd (sheet_and_mesh_setup name stacked_mesh_infile dem_dimensions lower_left_corner
              cell_size flip attribute_name @ [add_eslayer])
           = WriteFile ''_temp_attrib_array.dat''
       \<and> Bind ''stacked_mesh'' ''lg'' ''read'' [S stacked_mesh_infile]
           \<in> set (sheet_and_mesh_setup name stacked_mesh_infile dem_dimensions lower_left_corner
                    cell_size flip attribute_name @ [add_eslayer])
       \<and> RemoveFile ''_temp_attrib_array.dat''
           \<notin> set (sheet_and_mesh_setup name stacked_mesh_infile dem_dimensions lower_left_corner
                    cell_size flip attribute_name @ [add_eslayer])
       \<and> Call ''stacked_mesh'' ''dump'' [S outfile]
           \<notin> set (sheet_and_mesh_setup name stacked_mesh_infile dem_dimensions lower_left_corner
                    cell_size flip attribute_name @ [add_eslayer])
       \<and> set (layer_commands a v layer)
           \<inter> set (sheet_and_mesh_setup name stacked_mesh_infile dem_dimensions lower_left_corner
                    cell_size flip attribute_name @ [add_eslayer]) = {}"
    by (cases attribute_name)
      (simp_all add: sheet_and_mesh_setup_def add_eslayer_def layer_commands_def)
  from result rest show ?thesis
    by blast
qed

theorem addAttribute_non_integer_layer_witness:
  "fill_nodata hd (same_size [[1, 2], [3, 4]] (snd (2::nat, 2::nat), fst (2::nat, 2::nat))) (- 9999)
     = Inr [[0, 85], [170, 255]]
   \<and> (2::int) \<noteq> 0 \<and> PFloat 2.5 \<in> set [PInt 1, PFloat 2.5] \<and> \<not> is_int (PFloat 2.5)
   \<and> snd (addAttribute hd same_size ''abcde'' 8 [[1, 2], [3, 4]] ''stacked.inp'' ''out.inp''
        (2, 2) (0, 0) (1, 1) 2 ''y'' (- 9999) None (LList [PInt 1, PFloat 2.5])) = Inl ValueError
   \<and> length (fst (addAttribute hd same_size ''abcde'' 8 [[1, 2], [3, 4]] ''stacked.inp'' ''out.inp''
        (2, 2) (0, 0) (1, 1) 2 ''y'' (- 9999) None (LList [PInt 1, PFloat 2.5]))) = 9"
proof -
  have filled: "fill_nodata hd (same_size [[1, 2], [3, 4]] (snd (2::nat, 2::nat), fst (2::nat, 2::nat)))
      (- 9999) = Inr [[0, 85], [170, 255]]"
    by (simp add: same_size_2x2 fill_nodata_2x2)
  have layers: "(2::int) \<noteq> 0" "PFloat 2.5 \<in> set [PInt 1, PFloat 2.5]" "\<not> is_int (PFloat 2.5)"
    by (simp_all add: is_int_def)
  show ?thesis
    using addAttribute_non_integer_layer [where tie = hd and imresize = same_size
        and data = "[[1, 2], [3, 4]]" and dem_dimensions = "(2, 2)" and no_data_value = "- 9999"
        and filled = "[[0, 85], [170, 255]]" and number_of_layers = 2 and x = "PFloat 2.5"
        and xs = "[PInt 1, PFloat 2.5]" and name = "''abcde''" and nelements = 8
        and stacked_mesh_infile = "''stacked.inp''" and outfile = "''out.inp''"
        and lower_left_corner = "(0, 0)" and cell_size = "(1, 1)" and flip = "''y''"
        and attribute_name = None]
      filled layers
    by (simp add: sheet_and_mesh_setup_def)
qed

subsection \<open>generateComplexFacesets: what the function does with its arrays\<close>

lemma fst_alloc: "fst (alloc xs st) = next_free st"
  by (simp add: alloc_def)

lemma next_free_alloc: "next_free (snd (alloc xs st)) = Suc (next_free st)"
  by (simp add: alloc_def)

lemma arrays_alloc: "arrays (snd (alloc xs st)) b = (if b = next_free st then xs else arrays st b)"
  by (simp add: alloc_def)

lemmas store_simps = fst_alloc next_free_alloc arrays_alloc np_deepcopy_def np_sub_scalar_def np_add_scalar_def

lemma gcf_result:
  assumes sel: "select_attributes facesets = Inr (a, top_ref)"
    and a: "a < next_free st"
    and t: "case top_ref of None \<Rightarrow> True | Some t \<Rightarrow> t < next_free st"
  shows "snd (generateComplexFacesets st outfile mesh_file boundary facesets) =
     (if arrays st a = [] then ([], Inl ValueError)
      else if np_unique (values_of (map (\<lambda>x. x - np_min (arrays st a) + 1) (arrays st a)))
              \<noteq> [1..int (length (np_unique (values_of (map (\<lambda>x. x - np_min (arrays st a) + 1) (arrays st a)))))]
      then ([], Inl AssertionError)
      else (case generateLineConnectivity boundary True of
              Inl err \<Rightarrow> ([], Inl err)
            | Inr conn \<Rightarrow>
               (case writeLineAVS boundary ''_boundary_line_colors.inp'' (Some conn)
                       (Some (values_of (map (\<lambda>x. x - np_min (arrays st a) + 1) (arrays st a)))) None
                       (case top_ref of None \<Rightarrow> None | Some t \<Rightarrow> Some [(''ioutlet'', values_of (arrays st t))]) of
                  (w, Inl err) \<Rightarrow> (w, Inl err)
                | (w, Inr _) \<Rightarrow>
                    (w @ classify_faces outfile mesh_file (top_ref \<noteq> None)
                           (length (np_unique (values_of (map (\<lambda>x. x - np_min (arrays st a) + 1) (arrays st a))))),
                     Inr ()))))"
proof (cases top_ref)
  case None
  then show ?thesis
    using a by (auto simp: generateComplexFacesets_def sel Let_def split_def store_simps o_def split: sum.splits prod.splits)
next
  case (Some t')
  then have "t' < next_free st" using t by simp
  then show ?thesis
    using a Some by (auto simp: generateComplexFacesets_def sel Let_def split_def store_simps o_def split: sum.splits prod.splits)
qed

lemma unique_iff:
  "np_unique xs = [1..int (length (np_unique xs))] \<longleftrightarrow> set xs = {1..int (card (set xs))}"
proof
  assume "np_unique xs = [1..int (length (np_unique xs))]"
  then have "set (np_unique xs) = set [1..int (length (np_unique xs))]" by simp
  then show "set xs = {1..int (card (set xs))}"
    by (simp add: np_unique_def length_remdups_card_conv)
next
  assume s: "set xs = {1..int (card (set xs))}"
  have "sort (remdups xs) = [1..int (card (set xs))]"
  proof (rule sorted_distinct_set_unique)
    show "set (sort (remdups xs)) = set [1..int (card (set xs))]"
      using s by simp
  qed simp_all
  then show "np_unique xs = [1..int (length (np_unique xs))]"
    by (simp add: np_unique_def length_remdups_card_conv)
qed

lemma length_np_unique: "length (np_unique xs) = card (set xs)"
  by (simp add: np_unique_def length_remdups_card_conv)

lemma sint_inject: "sint x = sint y \<longleftrightarrow> x = y"
proof
  assume "sint x = sint y"
  then have "(word_of_int (sint x) :: 'a word) = word_of_int (sint y)"
    by simp
  then show "x = y"
    by simp
qed simp

lemma card_shifted:
  "card (set (values_of (map (\<lambda>x. x - m + 1) xs))) = card (set xs)"
proof -
  have "set (values_of (map (\<lambda>x. x - m + 1) xs)) = (\<lambda>x. sint (x - m + 1)) ` set xs"
    by (auto simp: values_of_def)
  moreover have "inj_on (\<lambda>x. sint (x - m + 1)) (set xs)"
    by (simp add: inj_on_def sint_inject)
  ultimately show ?thesis
    by (simp add: card_image)
qed

lemma sint_np_min:
  assumes "xs \<noteq> []"
  shows "sint (np_min xs) = Min (set (values_of xs))"
proof -
  have "min_list (map sint xs) \<in> set (map sint xs)"
    using assms by (simp add: min_list_Min)
  then obtain x :: "'a word" where "min_list (map sint xs) = sint x"
    by auto
  then have "sint (np_min xs) = min_list (map sint xs)"
    by (simp add: np_min_def)
  then show ?thesis
    using assms by (simp add: min_list_Min values_of_def)
qed

lemma values_of_shifted:
  fixes ba :: "'a::len word list"
  assumes "ba \<noteq> []"
    and "\<forall>x\<in>set ba. sint x - Min (set (values_of ba)) + 1 < 2 ^ (LENGTH('a) - 1)"
  shows "values_of (map (\<lambda>x. x - np_min ba + 1) ba)
           = map (\<lambda>v. v - Min (set (values_of ba)) + 1) (values_of ba)"
proof -
  let ?m = "Min (set (values_of ba))"
  have "sint (x - np_min ba + 1) = sint x - ?m + 1" if x: "x \<in> set ba" for x
  proof -
    have "?m \<le> sint x"
      using x by (simp add: values_of_def)
    then have lo: "- (2 ^ (LENGTH('a) - 1)) \<le> sint x - ?m + 1"
      by (smt (verit) zero_le_power)
    have hi: "sint x - ?m + 1 < 2 ^ (LENGTH('a) - 1)"
      using assms(2) x by blast
    have "x - np_min ba + 1 = word_of_int (sint x - sint (np_min ba) + 1)"
      by simp
    also have "\<dots> = word_of_int (sint x - ?m + 1)"
      by (simp only: sint_np_min [OF assms(1)])
    finally show ?thesis
      using lo hi by (simp only: sint_sbintrunc' signed_take_bit_int_eq_self)
  qed
  then show ?thesis
    by (simp add: values_of_def)
qed

lemma select_attributes_ok:
  assumes "allocated st facesets" and "boundary_attributes_of st facesets \<noteq> []"
  obtains a top_ref where "select_attributes facesets = Inr (a, top_ref)"
    and "a < next_free st" and "arrays st a = boundary_attributes_of st facesets"
    and "case top_ref of None \<Rightarrow> True | Some t \<Rightarrow> t < next_free st"
    and "top_requested facesets \<longleftrightarrow> top_ref \<noteq> None"
    and "outlet_attributes_of st facesets = (case top_ref of None \<Rightarrow> None | Some t \<Rightarrow> Some (arrays st t))"
proof (cases facesets)
  case (FArray a)
  show ?thesis
    using assms by (intro that[of a None]) (simp_all add: FArray select_attributes_def allocated_def boundary_attributes_of_def top_requested_def outlet_attributes_of_def)
next
  case (FDict m)
  then obtain a where a: "m ''all'' = Some a"
    using assms(2) by (auto simp: boundary_attributes_of_def split: option.splits)
  show ?thesis
    using assms a by (intro that[of a "m ''top''"]) (auto simp add: FDict select_attributes_def allocated_def boundary_attributes_of_def top_requested_def outlet_attributes_of_def split: option.splits)
qed

lemma connectivity_closed:
  assumes "boundary \<noteq> []"
  shows "\<exists>conn. generateLineConnectivity boundary True = Inr conn \<and> length conn = length boundary"
  using assms by (simp add: generateLineConnectivity_def Let_def)

lemma gcf_accepts:
  assumes alloc: "allocated st facesets"
    and ba: "boundary_attributes_of st facesets = ba"
    and bne: "boundary \<noteq> []" and len: "length boundary \<le> length ba"
    and outlet: "case outlet_attributes_of st facesets of None \<Rightarrow> True | Some t \<Rightarrow> length boundary \<le> length t"
  shows "snd (generateComplexFacesets st outfile mesh_file boundary facesets) =
     (if np_unique (values_of (map (\<lambda>x. x - np_min ba + 1) ba))
           = [1..int (length (np_unique (values_of (map (\<lambda>x. x - np_min ba + 1) ba))))]
      then ([WriteFile ''_boundary_line_colors.inp''] @
              classify_faces outfile mesh_file (top_requested facesets) (card (set ba)), Inr ())
      else ([], Inl AssertionError))"
proof -
  have ne: "ba \<noteq> []"
    using bne len by auto
  obtain a top_ref where sel: "select_attributes facesets = Inr (a, top_ref)"
    and a: "a < next_free st" and arr: "arrays st a = ba"
    and t: "case top_ref of None \<Rightarrow> True | Some t \<Rightarrow> t < next_free st"
    and top: "top_requested facesets \<longleftrightarrow> top_ref \<noteq> None"
    and out: "outlet_attributes_of st facesets = (case top_ref of None \<Rightarrow> None | Some t \<Rightarrow> Some (arrays st t))"
    using select_attributes_ok[OF alloc] ba ne by metis
  obtain conn where conn: "generateLineConnectivity boundary True = Inr conn"
    and lconn: "length conn = length boundary"
    using connectivity_closed [OF bne] by blast
  have w: "writeLineAVS boundary ''_boundary_line_colors.inp'' (Some conn)
             (Some (values_of (map (\<lambda>x. x - np_min ba + 1) ba))) None
             (case top_ref of None \<Rightarrow> None | Some t \<Rightarrow> Some [(''ioutlet'', values_of (arrays st t))])
           = ([WriteFile ''_boundary_line_colors.inp''], Inr ())"
    using outlet len lconn unfolding out
    by (cases top_ref) (simp_all add: writeLineAVS_def att_count_def atts_long_enough_def values_of_def)
  show ?thesis
    unfolding gcf_result[OF sel a t] arr
    using ne by (simp add: conn w top length_np_unique card_shifted)
qed

text \<open>
  C3, as stated, at arrays whose ids are without gaps and which are rejected all the same.
  The ids \<open>[1, 2]\<close> on a boundary of three points: the contiguity check passes and the
  writer of the boundary file raises an AssertionError, the array being shorter than the
  boundary. The ids \<open>[1, 3, 2]\<close> with the \<^verbatim>\<open>'top'\<close> array \<open>[1]\<close>: the same writer raises
  after it has created the file, the \<^verbatim>\<open>'top'\<close> array being too short. The id \<open>[1]\<close> on a
  boundary of no point: an IndexError from the connectivity. The empty array, whose set of
  ids is \<open>{1, \<dots>, 0}\<close>: \<^verbatim>\<open>np.min\<close> raises a ValueError. And the 128 ids -128, \<dots>, -1 in an
  array of 8-bit integers: shifted so that the minimum is 1 they are 1, \<dots>, 128, but the
  array cannot hold 128, the addition wraps around to -128 and the check fails.
\<close>

theorem generateComplexFacesets_contiguous_rejected:
  "set (map (\<lambda>v. v - Min (set (values_of [1, 2 :: 64 word])) + 1) (values_of [1, 2 :: 64 word]))
     = {1..2}
   \<and> snd (generateComplexFacesets (one_array [1, 2 :: 64 word]) ''out.exo'' ''mesh.inp''
            three_points (FArray 0)) = ([], Inl AssertionError)
   \<and> set (map (\<lambda>v. v - Min (set (values_of [1, 3, 2 :: 64 word])) + 1)
             (values_of [1, 3, 2 :: 64 word])) = {1..3}
   \<and> snd (generateComplexFacesets (two_arrays [1, 3, 2 :: 64 word] [1]) ''out.exo'' ''mesh.inp''
            three_points (FDict [''all'' \<mapsto> 0, ''top'' \<mapsto> 1]))
       = ([WriteFile ''_boundary_line_colors.inp''], Inl AssertionError)
   \<and> snd (generateComplexFacesets (one_array [1 :: 64 word]) ''out.exo'' ''mesh.inp''
            [] (FArray 0)) = ([], Inl IndexError)
   \<and> snd (generateComplexFacesets (one_array ([] :: 64 word list)) ''out.exo'' ''mesh.inp''
            three_points (FArray 0)) = ([], Inl ValueError)
   \<and> set (map (\<lambda>v. v - Min (set (values_of (map word_of_int [- 128..- 1] :: 8 word list))) + 1)
             (values_of (map word_of_int [- 128..- 1] :: 8 word list))) = {1..128}
   \<and> snd (generateComplexFacesets (one_array (map word_of_int [- 128..- 1] :: 8 word list))
            ''out.exo'' ''mesh.inp'' three_points (FArray 0)) = ([], Inl AssertionError)"
proof -
  have short_array: "snd (generateComplexFacesets (one_array [1, 2 :: 64 word]) ''out.exo''
      ''mesh.inp'' three_points (FArray 0)) = ([], Inl AssertionError)"
    by (simp add: generateComplexFacesets_def select_attributes_def Let_def split_def store_simps
        one_array_def np_unique_def np_min_def values_of_def upto.simps
        generateLineConnectivity_def three_points_def writeLineAVS_def att_count_def)
  have short_top: "snd (generateComplexFacesets (two_arrays [1, 3, 2 :: 64 word] [1]) ''out.exo''
      ''mesh.inp'' three_points (FDict [''all'' \<mapsto> 0, ''top'' \<mapsto> 1]))
       = ([WriteFile ''_boundary_line_colors.inp''], Inl AssertionError)"
    by (simp add: generateComplexFacesets_def select_attributes_def Let_def split_def store_simps
        two_arrays_def np_unique_def np_min_def values_of_def upto.simps
        generateLineConnectivity_def three_points_def writeLineAVS_def att_count_def
        atts_long_enough_def)
  have no_point: "snd (generateComplexFacesets (one_array [1 :: 64 word]) ''out.exo''
      ''mesh.inp'' [] (FArray 0)) = ([], Inl IndexError)"
    by (simp add: generateComplexFacesets_def select_attributes_def Let_def split_def store_simps
        one_array_def np_unique_def np_min_def values_of_def upto.simps
        generateLineConnectivity_def)
  have no_id: "snd (generateComplexFacesets (one_array ([] :: 64 word list)) ''out.exo''
      ''mesh.inp'' three_points (FArray 0)) = ([], Inl ValueError)"
    by (simp add: generateComplexFacesets_def select_attributes_def Let_def split_def store_simps
        one_array_def)
  have bytes: "values_of (map word_of_int [- 128..- 1] :: 8 word list) = [- 128..- 1]"
    by (simp add: values_of_def upto.simps)
  have exact: "set (map (\<lambda>v. v - Min (set [- 128..- 1]) + 1) [- 128..- 1]) = {1..128}"
  proof -
    have "Min {- 128..- 1 :: int} = - 128"
      by (rule Min_eqI) simp_all
    moreover have "(\<lambda>v. v + 129) ` {- 128..- 1} = {1..128::int}"
      by (auto simp: image_iff intro: bexI [of _ "x - 129" for x])
    ultimately show ?thesis
      by simp
  qed
  have not_there: "128 \<notin> set (values_of xs)" for xs :: "8 word list"
  proof
    assume "128 \<in> set (values_of xs)"
    then obtain x where "x \<in> set xs" and "sint x = 128"
      by (auto simp: values_of_def)
    with sint_lt [of x] show False
      by simp
  qed
  have wraps: "snd (generateComplexFacesets (one_array (map word_of_int [- 128..- 1] :: 8 word list))
            ''out.exo'' ''mesh.inp'' three_points (FArray 0)) = ([], Inl AssertionError)"
  proof -
    let ?ba = "map word_of_int [- 128..- 1] :: 8 word list"
    let ?sh = "map (\<lambda>x. x - np_min ?ba + 1) ?ba"
    have a: "allocated (one_array ?ba) (FArray 0)"
      by (simp add: allocated_def one_array_def)
    have b: "boundary_attributes_of (one_array ?ba) (FArray 0) = ?ba"
      by (simp add: boundary_attributes_of_def one_array_def)
    have n: "three_points \<noteq> []"
      by (simp add: three_points_def)
    have l: "length three_points \<le> length ?ba"
      by (simp add: three_points_def)
    have o: "case outlet_attributes_of (one_array ?ba) (FArray 0) of
               None \<Rightarrow> True | Some t \<Rightarrow> length three_points \<le> length t"
      by (simp add: outlet_attributes_of_def)
    have "card (set ?ba) = 128"
    proof -
      have "inj_on (word_of_int :: int \<Rightarrow> 8 word) {- 128..- 1}"
      proof (rule inj_onI)
        fix x y :: int
        assume x: "x \<in> {- 128..- 1}" and y: "y \<in> {- 128..- 1}"
          and e: "(word_of_int x :: 8 word) = word_of_int y"
        have "sint (word_of_int x :: 8 word) = x" "sint (word_of_int y :: 8 word) = y"
          using x y by (simp_all add: sint_sbintrunc' signed_take_bit_int_eq_self)
        with e show "x = y" by metis
      qed
      then show ?thesis
        by (simp add: card_image)
    qed
    then have c: "card (set (values_of ?sh)) = 128"
      by (simp only: card_shifted)
    have "set (values_of ?sh) \<noteq> {1..int (card (set (values_of ?sh)))}"
    proof
      assume "set (values_of ?sh) = {1..int (card (set (values_of ?sh)))}"
      then have "set (values_of ?sh) = {1..int 128}"
        by (simp only: c)
      moreover have "128 \<in> {1..int 128}"
        by simp
      ultimately have "128 \<in> set (values_of ?sh)"
        by (rule ssubst)
      with not_there [of ?sh] show False
        by (rule notE)
    qed
    then have "np_unique (values_of ?sh) \<noteq> [1..int (length (np_unique (values_of ?sh)))]"
      by (simp only: unique_iff not_False_eq_True)
    then show ?thesis
      by (simp only: gcf_accepts [OF a b n l o] if_False)
  qed
  have two: "set (map (\<lambda>v. v - Min (set (values_of [1, 2 :: 64 word])) + 1)
                  (values_of [1, 2 :: 64 word])) = {1..2}"
    by (auto simp: values_of_def)
  have three: "set (map (\<lambda>v. v - Min (set (values_of [1, 3, 2 :: 64 word])) + 1)
                    (values_of [1, 3, 2 :: 64 word])) = {1..3}"
    by (auto simp: values_of_def)
  have all_bytes: "set (map (\<lambda>v. v - Min (set (values_of (map word_of_int [- 128..- 1] :: 8 word list))) + 1)
             (values_of (map word_of_int [- 128..- 1] :: 8 word list))) = {1..128}"
    unfolding bytes by (rule exact)
  show ?thesis
    by (intro conjI two short_array three short_top no_point no_id all_bytes wraps)
qed

text \<open>
  C3, amended: for every array of boundary material ids given to generateComplexFacesets,
  directly or under the key \<^verbatim>\<open>'all'\<close>, that has an id for every point of a boundary that is
  not empty (and whose companion \<^verbatim>\<open>'top'\<close> array, if any, has an entry for every point too),
  the call succeeds if and only if the ids, shifted in the array's integer type so that their
  minimum is 1, are exactly \<open>{1, \<dots>, k}\<close>, \<open>k\<close> being the number of distinct ids; otherwise
  it fails with an AssertionError before anything is written or sent. As long as no shifted
  id exceeds the array's integer type the shift is the exact one, \<open>id - minimum + 1\<close>.
  \<open>[1, 3, 2]\<close> is accepted, \<open>[1, 4, 3]\<close> is rejected. To succeed is to issue every command
  and return: what the kernel does with the commands is not part of the function.
\<close>

theorem generateComplexFacesets_sequential_ids:
  fixes st :: "'a::len word store"
  assumes "allocated st facesets"
    and "boundary_attributes_of st facesets = ba"
    and "boundary \<noteq> []" and "length boundary \<le> length ba"
    and "case outlet_attributes_of st facesets of
           None \<Rightarrow> True | Some t \<Rightarrow> length boundary \<le> length t"
    and "shifted = map (\<lambda>x. x - np_min ba + 1) ba"
  shows "(snd (snd (generateComplexFacesets st outfile mesh_file boundary facesets)) = Inr ()
          \<longleftrightarrow> set (values_of shifted) = {1..int (card (set ba))})
       \<and> (snd (snd (generateComplexFacesets st outfile mesh_file boundary facesets)) = Inr ()
          \<or> snd (generateComplexFacesets st outfile mesh_file boundary facesets)
              = ([], Inl AssertionError))
       \<and> ((\<forall>x\<in>set ba. sint x - Min (set (values_of ba)) + 1 < 2 ^ (LENGTH('a) - 1))
          \<longrightarrow> values_of shifted = map (\<lambda>v. v - Min (set (values_of ba)) + 1) (values_of ba))
       \<and> snd (snd (generateComplexFacesets (one_array [1, 3, 2 :: 64 word]) outfile mesh_file
                      three_points (FArray 0))) = Inr ()
       \<and> snd (generateComplexFacesets (one_array [1, 4, 3 :: 64 word]) outfile mesh_file
                 three_points (FArray 0)) = ([], Inl AssertionError)"
proof -
  have ne: "ba \<noteq> []"
    using assms(3,4) by auto
  have k: "card (set (values_of shifted)) = card (set ba)"
    unfolding assms(6) by (rule card_shifted)
  have general: "(snd (snd (generateComplexFacesets st outfile mesh_file boundary facesets)) = Inr ()
          \<longleftrightarrow> set (values_of shifted) = {1..int (card (set ba))})
       \<and> (snd (snd (generateComplexFacesets st outfile mesh_file boundary facesets)) = Inr ()
          \<or> snd (generateComplexFacesets st outfile mesh_file boundary facesets)
              = ([], Inl AssertionError))"
    unfolding gcf_accepts [OF assms(1-5)] assms(6) [symmetric]
    using k by (simp add: unique_iff)
  have exact: "(\<forall>x\<in>set ba. sint x - Min (set (values_of ba)) + 1 < 2 ^ (LENGTH('a) - 1))
          \<longrightarrow> values_of shifted = map (\<lambda>v. v - Min (set (values_of ba)) + 1) (values_of ba)"
    unfolding assms(6) using values_of_shifted [OF ne] by blast
  have a: "allocated (one_array xs) (FArray 0)" for xs :: "64 word list"
    by (simp add: allocated_def one_array_def)
  have b: "boundary_attributes_of (one_array xs) (FArray 0) = xs" for xs :: "64 word list"
    by (simp add: boundary_attributes_of_def one_array_def)
  have o: "case outlet_attributes_of (one_array xs) (FArray 0) of
             None \<Rightarrow> True | Some t \<Rightarrow> length three_points \<le> length t" for xs :: "64 word list"
    by (simp add: outlet_attributes_of_def)
  have n: "three_points \<noteq> []"
    by (simp add: three_points_def)
  have l: "length three_points \<le> length [x, y, z]" for x y z :: "64 word"
    by (simp add: three_points_def)
  have accepted: "snd (snd (generateComplexFacesets (one_array [1, 3, 2 :: 64 word]) outfile mesh_file
      three_points (FArray 0))) = Inr ()"
    using gcf_accepts [OF a b n l o, where outfile = outfile and mesh_file = mesh_file]
    by (simp add: np_unique_def np_min_def values_of_def upto.simps)
  have rejected: "snd (generateComplexFacesets (one_array [1, 4, 3 :: 64 word]) outfile mesh_file
      three_points (FArray 0)) = ([], Inl AssertionError)"
    using gcf_accepts [OF a b n l o, where outfile = outfile and mesh_file = mesh_file]
    by (simp add: np_unique_def np_min_def values_of_def upto.simps)
  from general exact accepted rejected show ?thesis
    by blast
qed

theorem generateComplexFacesets_sequential_ids_witness:
  "allocated (one_array [7, 9, 8 :: 64 word]) (FArray 0)
   \<and> boundary_attributes_of (one_array [7, 9, 8 :: 64 word]) (FArray 0) = [7, 9, 8]
   \<and> three_points \<noteq> []
   \<and> length three_points \<le> length [7, 9, 8 :: 64 word]
   \<and> outlet_attributes_of (one_array [7, 9, 8 :: 64 word]) (FArray 0) = None
   \<and> map (\<lambda>x. x - np_min [7, 9, 8 :: 64 word] + 1) [7, 9, 8] = [1, 3, 2]
   \<and> values_of [1, 3, 2 :: 64 word] = [1, 3, 2]
   \<and> set [1, 3, 2 :: int] = {1..int (card (set [7, 9, 8 :: 64 word]))}
   \<and> snd (snd (generateComplexFacesets (one_array [7, 9, 8 :: 64 word]) ''out.exo'' ''mesh.inp''
                  three_points (FArray 0))) = Inr ()"
proof -
  have a: "allocated (one_array [7, 9, 8 :: 64 word]) (FArray 0)"
    by (simp add: allocated_def one_array_def)
  have b: "boundary_attributes_of (one_array [7, 9, 8 :: 64 word]) (FArray 0) = [7, 9, 8]"
    by (simp add: boundary_attributes_of_def one_array_def)
  have n: "three_points \<noteq> []"
    by (simp add: three_points_def)
  have l: "length three_points \<le> length [7, 9, 8 :: 64 word]"
    by (simp add: three_points_def)
  have o: "outlet_attributes_of (one_array [7, 9, 8 :: 64 word]) (FArray 0) = None"
    by (simp add: outlet_attributes_of_def)
  have o': "case outlet_attributes_of (one_array [7, 9, 8 :: 64 word]) (FArray 0) of
              None \<Rightarrow> True | Some t \<Rightarrow> length three_points \<le> length t"
    by (simp add: o)
  have s: "map (\<lambda>x. x - np_min [7, 9, 8 :: 64 word] + 1) [7, 9, 8] = [1, 3, 2]"
    by (simp add: np_min_def)
  have v: "values_of [1, 3, 2 :: 64 word] = [1, 3, 2]"
    by (simp add: values_of_def)
  have r: "set [1, 3, 2 :: int] = {1..int (card (set [7, 9, 8 :: 64 word]))}"
    by auto
  show ?thesis
    using generateComplexFacesets_sequential_ids [OF a b n l o' s [symmetric],
        of "''out.exo''" "''mesh.inp''"] a b n l o s v r
    by simp
qed

subsection \<open>generateComplexFacesets: the faceset files\<close>

lemma faceset_dumps_append: "faceset_dumps (xs @ ys) = faceset_dumps xs @ faceset_dumps ys"
  by (simp add: faceset_dumps_def)

lemma faceset_dumps_Cons_Call [simp]: "faceset_dumps (Call r m as # es) = faceset_dumps es"
  and faceset_dumps_Cons_Bind [simp]: "faceset_dumps (Bind v r m as # es) = faceset_dumps es"
  and faceset_dumps_Cons_WriteFile [simp]: "faceset_dumps (WriteFile f # es) = faceset_dumps es"
  and faceset_dumps_Nil [simp]: "faceset_dumps [] = []"
  by (simp_all add: faceset_dumps_def)

lemma faceset_dumps_write_faceset: "faceset_dumps (write_faceset n) = [ss_file n]"
  by (simp add: write_faceset_def) (simp add: faceset_dumps_def)

lemma faceset_dumps_loop: "faceset_dumps (concat (map write_faceset ns)) = map ss_file ns"
  by (induction ns) (simp_all add: faceset_dumps_append faceset_dumps_write_faceset)

lemma faceset_dumps_extract: "faceset_dumps (extract_surface mesh_file) = []"
  by (simp add: extract_surface_def)

lemma faceset_dumps_mark: "faceset_dumps mark_top_bottom_sides = []"
  by (simp add: mark_top_bottom_sides_def)

lemma faceset_dumps_map_boundary: "faceset_dumps (map_boundary_to_sides b) = []"
  by (simp add: map_boundary_to_sides_def faceset_dumps_append)

lemma faceset_dumps_split_top: "faceset_dumps (split_top n) = []"
  by (simp add: split_top_def)

lemma faceset_dumps_exodus: "faceset_dumps [write_exodus outfile fs] = []"
  by (simp add: write_exodus_def faceset_dumps_def)

lemma classify_faces_count:
  "classify_faces outfile mesh_file has_top k =
     extract_surface mesh_file @ mark_top_bottom_sides @ map_boundary_to_sides has_top @
     (if has_top then split_top (k + 3) else []) @
     concat (map write_faceset [1..<Suc (if has_top then k + 3 else k + 2)]) @
     [write_exodus outfile (map ss_file [1..<Suc (if has_top then k + 3 else k + 2)])]"
proof -
  have "(if has_top then k + 2 + 1 else k + 2) = (if has_top then k + 3 else k + 2)"
    by simp
  then show ?thesis
    unfolding classify_faces_def Let_def Suc_eq_plus1 by presburger
qed

lemma faceset_dumps_classify:
  "faceset_dumps (classify_faces outfile mesh_file has_top k) =
     map ss_file [1..<Suc (if has_top then k + 3 else k + 2)]"
  unfolding classify_faces_count
  by (simp only: faceset_dumps_append faceset_dumps_loop
      faceset_dumps_extract faceset_dumps_mark faceset_dumps_map_boundary
      faceset_dumps_split_top faceset_dumps_exodus faceset_dumps_Nil append_Nil append_Nil2 if_distrib[of faceset_dumps] if_cancel)

lemma select_attributes_allocated:
  assumes "allocated st facesets" and "select_attributes facesets = Inr (a, top_ref)"
  shows "a < next_free st" and "arrays st a = boundary_attributes_of st facesets"
    and "case top_ref of None \<Rightarrow> True | Some t \<Rightarrow> t < next_free st"
    and "top_requested facesets \<longleftrightarrow> top_ref \<noteq> None"
  using assms
  by (auto simp: select_attributes_def allocated_def boundary_attributes_of_def top_requested_def
      split: facesets_arg.splits option.splits)

lemma writeLineAVS_events: "writeLineAVS b f c m n ca = (w, Inr u) \<Longrightarrow> w = [WriteFile f]"
  by (auto simp: writeLineAVS_def Let_def split: if_splits)

lemma gcf_accepted_events:
  assumes alloc: "allocated st facesets"
    and ok: "snd (snd (generateComplexFacesets st outfile mesh_file boundary facesets)) = Inr ()"
  shows "fst (snd (generateComplexFacesets st outfile mesh_file boundary facesets)) =
     [WriteFile ''_boundary_line_colors.inp''] @
     classify_faces outfile mesh_file (top_requested facesets)
       (card (set (boundary_attributes_of st facesets)))"
proof -
  obtain a top_ref where sel: "select_attributes facesets = Inr (a, top_ref)"
    using ok by (cases "select_attributes facesets") (auto simp: generateComplexFacesets_def)
  note facts = select_attributes_allocated[OF alloc sel]
  show ?thesis
    using ok unfolding gcf_result[OF sel facts(1,3)] facts(2)
    by (auto simp: facts(4) length_np_unique card_shifted split: if_splits sum.splits prod.splits dest: writeLineAVS_events)
qed

text \<open>
  C4: for every accepted array of boundary material ids with \<open>k\<close> distinct values, exactly
  \<open>k + 2\<close> faceset files \<^verbatim>\<open>ss1_fs.faceset\<close>, \<dots> are written when no top sub-partition is
  requested and exactly \<open>k + 3\<close> when one is; in that case the faces of the top split are
  given the trailing id \<open>k + 3\<close>. The final export command lists exactly these files.
\<close>

theorem generateComplexFacesets_faceset_count:
  assumes "allocated st facesets"
    and "snd (snd (generateComplexFacesets st outfile mesh_file boundary facesets)) = Inr ()"
    and "k = card (set (boundary_attributes_of st facesets))"
  shows "faceset_dumps (fst (snd (generateComplexFacesets st outfile mesh_file boundary facesets)))
           = map ss_file [1..<Suc (if top_requested facesets then k + 3 else k + 2)]
       \<and> length (faceset_dumps (fst (snd (generateComplexFacesets st outfile mesh_file boundary facesets))))
           = (if top_requested facesets then k + 3 else k + 2)
       \<and> (top_requested facesets \<longrightarrow>
            Call ''mo_surf'' ''setatt''
              [S ''id_side'', I (int (k + 3)), Kw ''stride'' (L [S ''eltset'', S ''get'', Obj ''e_out1''])]
            \<in> set (fst (snd (generateComplexFacesets st outfile mesh_file boundary facesets))))
       \<and> last (fst (snd (generateComplexFacesets st outfile mesh_file boundary facesets)))
           = write_exodus outfile
               (faceset_dumps (fst (snd (generateComplexFacesets st outfile mesh_file boundary facesets))))"
proof -
  let ?evs = "[WriteFile ''_boundary_line_colors.inp''] @ classify_faces outfile mesh_file (top_requested facesets) k"
  have evs: "fst (snd (generateComplexFacesets st outfile mesh_file boundary facesets)) = ?evs"
    unfolding gcf_accepted_events [OF assms(1,2)] assms(3) ..
  have dumps: "faceset_dumps ?evs = map ss_file [1..<Suc (if top_requested facesets then k + 3 else k + 2)]"
    by (simp only: faceset_dumps_append faceset_dumps_classify faceset_dumps_Cons_WriteFile faceset_dumps_Nil append_Nil)
  have len: "length (map ss_file [1..<Suc (if top_requested facesets then k + 3 else k + 2)]) 
      = (if top_requested facesets then k + 3 else k + 2)"
    by (simp del: upt_Suc)
  have top: "top_requested facesets \<Longrightarrow>
      Call ''mo_surf'' ''setatt''
        [S ''id_side'', I (int (k + 3)), Kw ''stride'' (L [S ''eltset'', S ''get'', Obj ''e_out1''])]
      \<in> set ?evs"
    unfolding classify_faces_count by (simp add: split_top_def del: upt_Suc)
  have lst: "last ?evs 
      = write_exodus outfile (map ss_file [1..<Suc (if top_requested facesets then k + 3 else k + 2)])"
    unfolding classify_faces_count by (simp del: upt_Suc)
  show ?thesis
    unfolding evs dumps len using top lst by blast
qed

theorem generateComplexFacesets_faceset_count_witness:
  "allocated (two_arrays [7, 9, 8 :: 64 word] [1, 2, 1]) (FDict [''all'' \<mapsto> 0, ''top'' \<mapsto> 1])
   \<and> snd (snd (generateComplexFacesets (two_arrays [7, 9, 8 :: 64 word] [1, 2, 1]) ''out.exo'' ''mesh.inp''
                  three_points (FDict [''all'' \<mapsto> 0, ''top'' \<mapsto> 1]))) = Inr ()
   \<and> (3::nat) = card (set (boundary_attributes_of (two_arrays [7, 9, 8 :: 64 word] [1, 2, 1])
                              (FDict [''all'' \<mapsto> 0, ''top'' \<mapsto> 1])))
   \<and> top_requested (FDict [''all'' \<mapsto> 0, ''top'' \<mapsto> 1])
   \<and> faceset_dumps (fst (snd (generateComplexFacesets (two_arrays [7, 9, 8 :: 64 word] [1, 2, 1]) ''out.exo''
         ''mesh.inp'' three_points (FDict [''all'' \<mapsto> 0, ''top'' \<mapsto> 1]))))
       = [''ss1_fs.faceset'', ''ss2_fs.faceset'', ''ss3_fs.faceset'', ''ss4_fs.faceset'',
          ''ss5_fs.faceset'', ''ss6_fs.faceset'']
   \<and> Call ''mo_surf'' ''setatt''
        [S ''id_side'', I 6, Kw ''stride'' (L [S ''eltset'', S ''get'', Obj ''e_out1''])]
      \<in> set (fst (snd (generateComplexFacesets (two_arrays [7, 9, 8 :: 64 word] [1, 2, 1]) ''out.exo''
            ''mesh.inp'' three_points (FDict [''all'' \<mapsto> 0, ''top'' \<mapsto> 1]))))"
proof -
  have a: "allocated (two_arrays [7, 9, 8 :: 64 word] [1, 2, 1]) (FDict [''all'' \<mapsto> 0, ''top'' \<mapsto> 1])"
    by (simp add: allocated_def two_arrays_def)
  have b: "boundary_attributes_of (two_arrays [7, 9, 8 :: 64 word] [1, 2, 1])
             (FDict [''all'' \<mapsto> 0, ''top'' \<mapsto> 1]) = [7, 9, 8]"
    by (simp add: boundary_attributes_of_def two_arrays_def)
  have n: "three_points \<noteq> []"
    by (simp add: three_points_def)
  have l: "length three_points \<le> length [7, 9, 8 :: 64 word]"
    by (simp add: three_points_def)
  have o: "case outlet_attributes_of (two_arrays [7, 9, 8 :: 64 word] [1, 2, 1])
                  (FDict [''all'' \<mapsto> 0, ''top'' \<mapsto> 1]) of
             None \<Rightarrow> True | Some t \<Rightarrow> length three_points \<le> length t"
    by (simp add: outlet_attributes_of_def two_arrays_def three_points_def)
  have ok: "snd (snd (generateComplexFacesets (two_arrays [7, 9, 8 :: 64 word] [1, 2, 1]) ''out.exo''
      ''mesh.inp'' three_points (FDict [''all'' \<mapsto> 0, ''top'' \<mapsto> 1]))) = Inr ()"
    using gcf_accepts [OF a b n l o, where outfile = "''out.exo''" and mesh_file = "''mesh.inp''"]
    by (simp add: np_unique_def np_min_def values_of_def upto.simps)
  have k: "(3::nat) = card (set (boundary_attributes_of (two_arrays [7, 9, 8 :: 64 word] [1, 2, 1])
                              (FDict [''all'' \<mapsto> 0, ''top'' \<mapsto> 1])))"
    unfolding b by simp
  have t: "top_requested (FDict [''all'' \<mapsto> 0, ''top'' \<mapsto> 1])"
    by (simp add: top_requested_def)
  have files: "map ss_file [1..<Suc (3 + 3)]
      = [''ss1_fs.faceset'', ''ss2_fs.faceset'', ''ss3_fs.faceset'', ''ss4_fs.faceset'',
         ''ss5_fs.faceset'', ''ss6_fs.faceset'']"
    by (simp add: ss_file_def str_nat_digit upt_rec)
  note count = generateComplexFacesets_faceset_count [OF a ok k]
  have dumps: "faceset_dumps (fst (snd (generateComplexFacesets (two_arrays [7, 9, 8 :: 64 word] [1, 2, 1])
         ''out.exo'' ''mesh.inp'' three_points (FDict [''all'' \<mapsto> 0, ''top'' \<mapsto> 1]))))
       = [''ss1_fs.faceset'', ''ss2_fs.faceset'', ''ss3_fs.faceset'', ''ss4_fs.faceset'',
          ''ss5_fs.faceset'', ''ss6_fs.faceset'']"
    using count [THEN conjunct1] t by (simp only: if_True files)
  have trailing: "Call ''mo_surf'' ''setatt''
        [S ''id_side'', I 6, Kw ''stride'' (L [S ''eltset'', S ''get'', Obj ''e_out1''])]
      \<in> set (fst (snd (generateComplexFacesets (two_arrays [7, 9, 8 :: 64 word] [1, 2, 1]) ''out.exo''
            ''mesh.inp'' three_points (FDict [''all'' \<mapsto> 0, ''top'' \<mapsto> 1]))))"
    using count [THEN conjunct2, THEN conjunct2, THEN conjunct1] t by simp
  show ?thesis
    by (intro conjI a ok k t dumps trailing)
qed

subsection \<open>generateComplexFacesets: the caller's arrays\<close>

text \<open>
  C10: for every store and every argument, whether the call succeeds or fails, every array
  that existed before the call holds the same integers after it: the shift of the ids is
  done on the copy made by \<^verbatim>\<open>deepcopy\<close> and on the arrays the arithmetic returns, which
  are all new.
\<close>

theorem generateComplexFacesets_frame:
  assumes "a < next_free st"
  shows "arrays (fst (generateComplexFacesets st outfile mesh_file boundary facesets)) a
           = arrays st a
       \<and> next_free st \<le> next_free (fst (generateComplexFacesets st outfile mesh_file boundary facesets))"
  using assms
  by (auto simp: generateComplexFacesets_def Let_def split_def store_simps
      split: sum.splits prod.splits)

theorem generateComplexFacesets_frame_witness:
  "(0::nat) < next_free (one_array [7, 9, 8 :: 64 word])
   \<and> arrays (one_array [7, 9, 8 :: 64 word]) 0 = [7, 9, 8]
   \<and> arrays (fst (generateComplexFacesets (one_array [7, 9, 8 :: 64 word]) ''out.exo'' ''mesh.inp''
                    three_points (FArray 0))) 0 = [7, 9, 8]
   \<and> arrays (fst (generateComplexFacesets (one_array [7, 9, 8 :: 64 word]) ''out.exo'' ''mesh.inp''
                    three_points (FArray 0))) 3 = [1, 3, 2]"
proof -
  have a: "(0::nat) < next_free (one_array [7, 9, 8 :: 64 word])"
    by (simp add: one_array_def)
  have copy: "arrays (fst (generateComplexFacesets (one_array [7, 9, 8 :: 64 word]) ''out.exo'' ''mesh.inp''
                    three_points (FArray 0))) 3 = [1, 3, 2]"
    by (simp add: generateComplexFacesets_def select_attributes_def Let_def split_def store_simps
        one_array_def np_unique_def np_min_def values_of_def upto.simps
        generateLineConnectivity_def three_points_def writeLineAVS_def att_count_def)
  show ?thesis
    using generateComplexFacesets_frame [OF a, of "''out.exo''" "''mesh.inp''" three_points "FArray 0"]
      a copy
    by (simp add: one_array_def)
qed

end
